theory Spec2Isabelle
  imports Complex_Main "HOL-Library.AList" "HOL-Library.Word"
begin

unbundle bit_operations_syntax

section \<open>Data model of the low-level MCP server (index.ts)\<close>

text \<open>
  The server keeps three module-level JavaScript objects used as dictionaries with string
  keys: \<^verbatim>\<open>searchCache\<close>, \<^verbatim>\<open>rateLimits\<close> and \<^verbatim>\<open>transports\<close>. A dictionary
  is an association list in insertion order: \<open>map_of\<close> reads a key, \<open>AList.update\<close> assigns
  it (in place when the key exists, appended otherwise) and \<open>AList.delete\<close> is the
  \<^verbatim>\<open>delete\<close> operator. \<^verbatim>\<open>Object.keys\<close> is \<open>map fst\<close>.

  \<^verbatim>\<open>Date.now()\<close> is an integer number of milliseconds; every function that reads the
  clock takes that reading as its argument \<open>now\<close>. Strings are sequences of code units
  below 256.
\<close>

type_synonym 'v dict = "(string \<times> 'v) list"

subsection \<open>Result cache\<close>

record 'v CacheEntry =
  data :: 'v
  timestamp :: int
  ttl :: int


text \<open>
  \<^verbatim>\<open>getFromCache(key)\<close>: the first component is the returned value (\<open>None\<close> is
  \<^verbatim>\<open>null\<close>), the second the cache after the call.
\<close>

definition getFromCache :: "int \<Rightarrow> string \<Rightarrow> 'v CacheEntry dict \<Rightarrow> 'v option \<times> 'v CacheEntry dict" where
  "getFromCache now key searchCache =
     (case map_of searchCache key of
        None \<Rightarrow> (None, searchCache)
      | Some entry \<Rightarrow>
          if now > timestamp entry + ttl entry
          then (None, AList.delete key searchCache)
          else (Some (data entry), searchCache))"

definition saveToCache :: "int \<Rightarrow> string \<Rightarrow> 'v \<Rightarrow> int \<Rightarrow> 'v CacheEntry dict \<Rightarrow> 'v CacheEntry dict" where
  "saveToCache now key d t searchCache =
     AList.update key \<lparr>data = d, timestamp = now, ttl = t\<rparr> searchCache"

subsection \<open>Rate windows\<close>

record RateLimitEntry =
  requests :: int
  windowStart :: int

definition RATE_LIMIT_WINDOW :: int where
  "RATE_LIMIT_WINDOW = 60000"

definition RATE_LIMIT_MAX_REQUESTS :: int where
  "RATE_LIMIT_MAX_REQUESTS = 100"

text \<open>
  \<^verbatim>\<open>checkRateLimit(ip)\<close>: the returned boolean and the \<^verbatim>\<open>rateLimits\<close> object after the
  call. \<^verbatim>\<open>entry.requests++\<close> mutates the stored entry in place.
\<close>

definition checkRateLimit :: "int \<Rightarrow> string \<Rightarrow> RateLimitEntry dict \<Rightarrow> bool \<times> RateLimitEntry dict" where
  "checkRateLimit now ip rateLimits =
     (case map_of rateLimits ip of
        None \<Rightarrow> (True, AList.update ip \<lparr>requests = 1, windowStart = now\<rparr> rateLimits)
      | Some entry \<Rightarrow>
          if now - windowStart entry \<ge> RATE_LIMIT_WINDOW
          then (True, AList.update ip \<lparr>requests = 1, windowStart = now\<rparr> rateLimits)
          else if requests entry < RATE_LIMIT_MAX_REQUESTS
          then (True, AList.update ip (entry\<lparr>requests := requests entry + 1\<rparr>) rateLimits)
          else (False, rateLimits))"

text \<open>
  A run of the limiter: \<open>calls\<close> is the sequence of \<^verbatim>\<open>checkRateLimit\<close> calls the server
  makes, each with its address and clock reading, and \<open>admissions a\<close> collects the
  answers given to address \<open>a\<close>, in order.
\<close>

fun admissions :: "string \<Rightarrow> (string \<times> int) list \<Rightarrow> RateLimitEntry dict \<Rightarrow> bool list" where
  "admissions a [] rateLimits = []"
| "admissions a ((ip, now) # calls) rateLimits =
     (let r = checkRateLimit now ip rateLimits
      in (if ip = a then [fst r] else []) @ admissions a calls (snd r))"

subsection \<open>JSON values and error envelopes\<close>

datatype json =
    JNull
  | JBool bool
  | JNum int
  | JStr string
  | JArr "json list"
  | JObj "(string \<times> json) list"

text \<open>JavaScript truthiness of a JSON value, as \<^verbatim>\<open>!x\<close> and \<^verbatim>\<open>x && y\<close> test it.\<close>

fun truthy :: "json \<Rightarrow> bool" where
  "truthy JNull = False"
| "truthy (JBool b) = b"
| "truthy (JNum n) = (n \<noteq> 0)"
| "truthy (JStr s) = (s \<noteq> [])"
| "truthy (JArr xs) = True"
| "truthy (JObj kvs) = True"

text \<open>
  An optional field or argument is an \<open>option\<close>: \<open>None\<close> is \<^verbatim>\<open>undefined\<close>. The
  \<^verbatim>\<open>jsonrpc\<close> field of an envelope is the constant \<^verbatim>\<open>"2.0"\<close>.
\<close>

record MCPError =
  code :: int
  message :: string
  err_data :: "json option"

record JSONRPCErrorResponse =
  jsonrpc :: string
  error :: MCPError
  resp_id :: "json option"

definition createErrorResponse :: "int \<Rightarrow> string \<Rightarrow> json option \<Rightarrow> json option \<Rightarrow> JSONRPCErrorResponse" where
  "createErrorResponse c m i d =
     \<lparr>jsonrpc = ''2.0'',
      error = \<lparr>code = c, message = m,
               err_data = (case d of None \<Rightarrow> None | Some v \<Rightarrow> if truthy v then Some v else None)\<rparr>,
      resp_id = i\<rparr>"

subsection \<open>Requests, replies and the rate limiting middleware\<close>

datatype http_method = GET | POST | DELETE

text \<open>
  What the handlers read of an Express request: the verb \<^verbatim>\<open>req.method\<close> (field
  \<open>req_method\<close>), \<^verbatim>\<open>req.ip\<close>,
  \<^verbatim>\<open>req.socket.remoteAddress\<close>, whether \<^verbatim>\<open>req.is('application/json')\<close> is truthy, the
  \<^verbatim>\<open>mcp-session-id\<close> header and the parsed body.
\<close>

record request =
  req_method :: http_method
  ip :: "string option"
  remoteAddress :: "string option"
  is_json :: bool
  mcp_session_id :: "string option"
  body :: "json option"

text \<open>Truthiness of a \<^verbatim>\<open>string | undefined\<close>: the empty string is falsy.\<close>

fun present :: "string option \<Rightarrow> bool" where
  "present None = False"
| "present (Some s) = (s \<noteq> [])"

text \<open>\<^verbatim>\<open>a || b\<close> on such a value.\<close>

definition or_else :: "string option \<Rightarrow> string \<Rightarrow> string" where
  "or_else a b = (case a of None \<Rightarrow> b | Some s \<Rightarrow> if s = [] then b else s)"

definition clientIP :: "request \<Rightarrow> string" where
  "clientIP req = or_else (ip req) (or_else (remoteAddress req) ''unknown'')"

record health =
  status :: string
  iso_timestamp :: string
  activeSessions :: nat
  cacheEntries :: nat
  uptime :: real
  memory_used :: int
  memory_total :: int

text \<open>
  What a request is answered with: \<^verbatim>\<open>res.status(n).json(envelope)\<close>, the health
  report, whatever the SDK transport wrote (\<open>'r\<close>), or nothing more from the handler
  when an error is caught after the headers were sent.
\<close>

datatype 'r reply =
    ErrorReply int JSONRPCErrorResponse
  | HealthReply health
  | TransportReply 'r
  | Unfinished

text \<open>\<^verbatim>\<open>Math.ceil(a / b)\<close> for integers \<open>a\<close> and \<open>b > 0\<close>.\<close>

definition ceil_div :: "int \<Rightarrow> int \<Rightarrow> int" where
  "ceil_div a b = - ((- a) div b)"

text \<open>
  The rate limiting middleware, registered with \<^verbatim>\<open>app.use\<close> for every path. \<open>None\<close>
  as the first component is \<^verbatim>\<open>next()\<close>.
\<close>

definition rateLimitMiddleware :: "int \<Rightarrow> request \<Rightarrow> RateLimitEntry dict \<Rightarrow> 'r reply option \<times> RateLimitEntry dict" where
  "rateLimitMiddleware now req rateLimits =
     (let r = checkRateLimit now (clientIP req) rateLimits
      in if \<not> fst r
         then (Some (ErrorReply 429
                 (createErrorResponse (- 32000) ''Too many requests. Please try again later.''
                    (Some JNull)
                    (Some (JObj [(''retryAfter'', JNum (ceil_div RATE_LIMIT_WINDOW 1000))])))),
               snd r)
         else (None, snd r))"

text \<open>The \<^verbatim>\<open>data.retryAfter\<close> field of a reply, when it has one.\<close>

fun retryAfter :: "'r reply \<Rightarrow> json option" where
  "retryAfter (ErrorReply n e) =
     (case err_data (error e) of Some (JObj kvs) \<Rightarrow> map_of kvs ''retryAfter'' | _ \<Rightarrow> None)"
| "retryAfter _ = None"

text \<open>
  The remaining time of a rate window at \<open>now\<close>, in milliseconds, in the
  specification's words: \<open>windowStart + W - now\<close>.
\<close>

definition remaining_window :: "int \<Rightarrow> RateLimitEntry \<Rightarrow> int" where
  "remaining_window now e = windowStart e + RATE_LIMIT_WINDOW - now"

subsection \<open>Session identifiers\<close>

text \<open>
  \<^verbatim>\<open>isValidSessionId\<close> tests the regular expression
  \<^verbatim>\<open>/^[a-f0-9]{8}-[a-f0-9]{4}-[a-f0-9]{4}-[a-f0-9]{4}-[a-f0-9]{12}$/\<close>. The expression is a
  sequence of single-character classes anchored at both ends, so it is a list of
  predicates, one per character, and \<open>matches\<close> consumes the string against that list.
\<close>

definition lower_hex :: "char \<Rightarrow> bool" where
  "lower_hex c = (c \<in> set ''abcdef0123456789'')"

definition hyphen :: "char \<Rightarrow> bool" where
  "hyphen c = (c = CHR ''-'')"

fun matches :: "(char \<Rightarrow> bool) list \<Rightarrow> string \<Rightarrow> bool" where
  "matches [] s = (s = [])"
| "matches (P # ps) [] = False"
| "matches (P # ps) (c # s) = (P c \<and> matches ps s)"

definition session_id_pattern :: "(char \<Rightarrow> bool) list" where
  "session_id_pattern =
     replicate 8 lower_hex @ [hyphen] @ replicate 4 lower_hex @ [hyphen] @
     replicate 4 lower_hex @ [hyphen] @ replicate 4 lower_hex @ [hyphen] @
     replicate 12 lower_hex"

definition isValidSessionId :: "string \<Rightarrow> bool" where
  "isValidSessionId sid = matches session_id_pattern sid"

text \<open>
  The 8-4-4-4-12 shape in the specification's words: 36 characters, hyphens at
  positions 8, 13, 18 and 23, lowercase hexadecimal digits everywhere else.
\<close>

definition uuid_shape :: "string \<Rightarrow> bool" where
  "uuid_shape s =
     (length s = 36 \<and>
      (\<forall>i \<in> {0..<36}. if i \<in> {8, 13, 18, 23} then s ! i = CHR ''-''
                       else s ! i \<in> set ''0123456789abcdef''))"

text \<open>
  \<^verbatim>\<open>randomUUID()\<close> is Node's \<^verbatim>\<open>crypto.randomUUID\<close>, not code of this repository: an
  RFC 4122 version 4 identifier. It is a function of the 16 random bytes it draws: the
  version and variant bits are forced, and the bytes are printed as lowercase
  hexadecimal in groups of 4, 2, 2, 2 and 6 bytes.
\<close>

definition hex_digit :: "nat \<Rightarrow> char" where
  "hex_digit n = ''0123456789abcdef'' ! n"

definition hex_byte :: "8 word \<Rightarrow> string" where
  "hex_byte b = [hex_digit (unat b div 16), hex_digit (unat b mod 16)]"

definition randomUUID :: "8 word list \<Rightarrow> string" where
  "randomUUID bytes =
     (let b = bytes[6 := (bytes ! 6 AND 0x0f) OR 0x40, 8 := (bytes ! 8 AND 0x3f) OR 0x80];
          h = concat (map hex_byte b)
      in take 8 h @ ''-'' @ take 4 (drop 8 h) @ ''-'' @ take 4 (drop 12 h) @ ''-'' @
         take 4 (drop 16 h) @ ''-'' @ drop 20 h)"

subsection \<open>The session registry and the SDK transport\<close>

text \<open>
  A \<^verbatim>\<open>StreamableHTTPServerTransport\<close> is an object of the MCP SDK. The server reads its
  \<^verbatim>\<open>sessionId\<close> property, calls \<^verbatim>\<open>handleRequest\<close> on it and gives it three callbacks
  (\<^verbatim>\<open>sessionIdGenerator\<close>, \<^verbatim>\<open>onsessioninitialized\<close>, \<^verbatim>\<open>onclose\<close>). What the SDK does in
  one \<^verbatim>\<open>handleRequest\<close> call is a parameter of the model: whether it initialises the
  session (then the random bytes drawn by the generator), whether it closes the
  transport, and whether it answers or throws.

  A thrown value is \<open>Some m\<close> for an \<^verbatim>\<open>Error\<close> with message \<open>m\<close> and \<open>None\<close> for anything
  else; \<open>Thrown e sent\<close> carries \<^verbatim>\<open>res.headersSent\<close> at the time of the catch.
\<close>

record transport =
  sessionId :: "string option"

datatype 'r sdk_result = Sent 'r | Thrown "string option" bool

record 'r sdk_effect =
  initialized :: "8 word list option"
  closed :: bool
  result :: "'r sdk_result"

record 'r sdk =
  isInitializeRequest :: "json \<Rightarrow> bool"
  connect :: "transport \<Rightarrow> string option option"
  handleRequest :: "transport \<Rightarrow> request \<Rightarrow> 'r sdk_effect"

datatype tool_result = TextContent string

record server_state =
  transports :: "transport dict"
  searchCache :: "tool_result CacheEntry dict"
  rateLimits :: "RateLimitEntry dict"

definition error_message :: "string option \<Rightarrow> string" where
  "error_message e = (case e of Some m \<Rightarrow> m | None \<Rightarrow> ''Unknown error'')"

text \<open>The callbacks the POST handler installs on a new transport.\<close>

definition onsessioninitialized :: "transport \<Rightarrow> string \<Rightarrow> transport dict \<Rightarrow> transport dict" where
  "onsessioninitialized tr sid ts = AList.update sid tr ts"

definition onclose :: "transport \<Rightarrow> transport dict \<Rightarrow> transport dict" where
  "onclose tr ts = (case sessionId tr of
                      None \<Rightarrow> ts
                    | Some sid \<Rightarrow> if sid \<noteq> [] then AList.delete sid ts else ts)"

text \<open>
  \<^verbatim>\<open>await transport.handleRequest(req, res, ...)\<close> with the callbacks it may fire: the
  generator \<^verbatim>\<open>() => randomUUID()\<close> names the session, the SDK stores the name in the
  transport and calls \<^verbatim>\<open>onsessioninitialized\<close>; a close calls \<^verbatim>\<open>onclose\<close>.
\<close>

definition run_handleRequest :: "'r sdk \<Rightarrow> transport \<Rightarrow> request \<Rightarrow> transport dict \<Rightarrow> 'r sdk_result \<times> transport dict" where
  "run_handleRequest sdk tr req ts =
     (let eff = handleRequest sdk tr req;
          tr1 = (case initialized eff of
                   None \<Rightarrow> tr
                 | Some bytes \<Rightarrow> tr\<lparr>sessionId := Some (randomUUID bytes)\<rparr>);
          ts1 = (case initialized eff of
                   None \<Rightarrow> ts
                 | Some bytes \<Rightarrow> onsessioninitialized tr1 (randomUUID bytes) ts);
          ts2 = (if closed eff then onclose tr1 ts1 else ts1)
      in (result eff, ts2))"

subsection \<open>The /mcp handlers\<close>

text \<open>\<^verbatim>\<open>typeof b === 'object'\<close> and \<^verbatim>\<open>b.id\<close> for a parsed JSON value.\<close>

fun is_object :: "json \<Rightarrow> bool" where
  "is_object JNull = True"
| "is_object (JArr xs) = True"
| "is_object (JObj kvs) = True"
| "is_object _ = False"

fun body_id :: "json \<Rightarrow> json option" where
  "body_id (JObj kvs) = map_of kvs ''id''"
| "body_id _ = None"

text \<open>\<^verbatim>\<open>req.body?.id\<close>.\<close>

definition opt_body_id :: "json option \<Rightarrow> json option" where
  "opt_body_id b = (case b of None \<Rightarrow> None | Some v \<Rightarrow> body_id v)"

definition bad_request :: "string \<Rightarrow> json option \<Rightarrow> 'r reply" where
  "bad_request m i = ErrorReply 400 (createErrorResponse (- 32000) m i None)"

definition internal_error :: "string \<Rightarrow> string option \<Rightarrow> json option \<Rightarrow> 'r reply" where
  "internal_error prefix e i =
     ErrorReply 500 (createErrorResponse (- 32603) (prefix @ error_message e) i None)"

text \<open>
  The call of \<^verbatim>\<open>transport.handleRequest\<close> inside a handler's \<^verbatim>\<open>try\<close>: an error caught
  before the headers were sent becomes a 500 envelope.
\<close>

definition handle_with :: "'r sdk \<Rightarrow> string \<Rightarrow> json option \<Rightarrow> transport \<Rightarrow> request \<Rightarrow> server_state \<Rightarrow> 'r reply \<times> server_state" where
  "handle_with sdk prefix i tr req st =
     (case run_handleRequest sdk tr req (transports st) of
        (Sent r, ts) \<Rightarrow> (TransportReply r, st\<lparr>transports := ts\<rparr>)
      | (Thrown e sent, ts) \<Rightarrow>
          (if \<not> sent then internal_error prefix e i else Unfinished, st\<lparr>transports := ts\<rparr>))"

text \<open>
  \<^verbatim>\<open>app.post("/mcp")\<close>. The last two branches of the source's \<^verbatim>\<open>if\<close> chain are reached
  with a falsy session id (no header, or an empty one): \<open>post_without_session\<close>.
\<close>

definition post_without_session :: "'r sdk \<Rightarrow> request \<Rightarrow> json \<Rightarrow> server_state \<Rightarrow> 'r reply \<times> server_state" where
  "post_without_session sdk req b st =
     (if isInitializeRequest sdk b
      then (let tr = \<lparr>sessionId = None\<rparr>
            in case connect sdk tr of
                 Some e \<Rightarrow> (internal_error ''Internal server error: '' e (body_id b), st)
               | None \<Rightarrow> handle_with sdk ''Internal server error: '' (body_id b) tr req st)
      else (bad_request ''Bad Request: No valid session ID provided or not an initialize request''
              (body_id b), st))"

definition post_mcp :: "'r sdk \<Rightarrow> request \<Rightarrow> server_state \<Rightarrow> 'r reply \<times> server_state" where
  "post_mcp sdk req st =
     (case body req of
        None \<Rightarrow>
          (ErrorReply 400 (createErrorResponse (- 32600)
             ''Invalid Request: Body must be a valid JSON object'' (Some JNull) None), st)
      | Some b \<Rightarrow>
          if \<not> truthy b \<or> \<not> is_object b
          then (ErrorReply 400 (createErrorResponse (- 32600)
                  ''Invalid Request: Body must be a valid JSON object'' (Some JNull) None), st)
          else
            (case mcp_session_id req of
               None \<Rightarrow> post_without_session sdk req b st
             | Some sid \<Rightarrow>
                 if sid \<noteq> [] \<and> \<not> isValidSessionId sid
                 then (bad_request ''Invalid session ID format'' (body_id b), st)
                 else if sid \<noteq> []
                 then (case map_of (transports st) sid of
                         Some tr \<Rightarrow>
                           if sessionId tr \<noteq> Some sid
                           then (bad_request ''Session expired or invalid'' (body_id b),
                                 st\<lparr>transports := AList.delete sid (transports st)\<rparr>)
                           else handle_with sdk ''Internal server error: '' (body_id b) tr req st
                       | None \<Rightarrow>
                           (bad_request
                              ''Bad Request: No valid session ID provided or not an initialize request''
                              (body_id b), st))
                 else post_without_session sdk req b st))"

text \<open>\<^verbatim>\<open>app.get("/mcp")\<close>.\<close>

definition get_mcp :: "'r sdk \<Rightarrow> request \<Rightarrow> server_state \<Rightarrow> 'r reply \<times> server_state" where
  "get_mcp sdk req st =
     (if \<not> present (mcp_session_id req)
      then (bad_request ''Bad Request: No session ID provided'' (Some JNull), st)
      else let sid = or_else (mcp_session_id req) [] in
        if \<not> isValidSessionId sid
        then (bad_request ''Bad Request: Invalid session ID format'' (Some JNull), st)
        else (case map_of (transports st) sid of
                None \<Rightarrow> (bad_request ''Bad Request: Session not found or expired'' (Some JNull), st)
              | Some tr \<Rightarrow>
                  handle_with sdk ''Error handling SSE connection: '' (Some JNull) tr req st))"

text \<open>
  \<^verbatim>\<open>app.delete("/mcp")\<close>. The third component lists the session ids for which the
  handler has scheduled, with \<^verbatim>\<open>setTimeout(..., 1000)\<close>, the callback
  \<open>terminationCleanup\<close>; the callback is not scheduled when \<^verbatim>\<open>handleRequest\<close> throws.
\<close>

definition delete_mcp :: "'r sdk \<Rightarrow> request \<Rightarrow> server_state \<Rightarrow> 'r reply \<times> server_state \<times> string list" where
  "delete_mcp sdk req st =
     (if \<not> present (mcp_session_id req)
      then (bad_request ''Bad Request: No session ID provided'' (opt_body_id (body req)), st, [])
      else let sid = or_else (mcp_session_id req) [] in
        if \<not> isValidSessionId sid
        then (bad_request ''Bad Request: Invalid session ID format'' (opt_body_id (body req)), st, [])
        else (case map_of (transports st) sid of
                None \<Rightarrow>
                  (bad_request ''Bad Request: Session not found or already terminated''
                     (opt_body_id (body req)), st, [])
              | Some tr \<Rightarrow>
                  (case run_handleRequest sdk tr req (transports st) of
                     (Sent r, ts) \<Rightarrow> (TransportReply r, st\<lparr>transports := ts\<rparr>, [sid])
                   | (Thrown e sent, ts) \<Rightarrow>
                       (if \<not> sent
                        then internal_error ''Error handling session termination: '' e
                               (opt_body_id (body req))
                        else Unfinished,
                        st\<lparr>transports := ts\<rparr>, []))))"

definition terminationCleanup :: "string \<Rightarrow> server_state \<Rightarrow> server_state" where
  "terminationCleanup sid st =
     (if map_of (transports st) sid \<noteq> None
      then st\<lparr>transports := AList.delete sid (transports st)\<rparr>
      else st)"

text \<open>The Content-Type middleware mounted on \<^verbatim>\<open>/mcp\<close>.\<close>

definition contentTypeMiddleware :: "request \<Rightarrow> 'r reply option" where
  "contentTypeMiddleware req =
     (if req_method req = POST \<and> \<not> is_json req
      then Some (ErrorReply 415
                  \<lparr>jsonrpc = ''2.0'',
                   error = \<lparr>code = - 32600,
                            message = ''Invalid Content-Type. Expected application/json'',
                            err_data = None\<rparr>,
                   resp_id = Some JNull\<rparr>)
      else None)"

text \<open>
  A request to \<^verbatim>\<open>/mcp\<close> as Express routes it: the rate limiting middleware, the
  Content-Type middleware, then the handler of the verb.
\<close>

definition mcp_endpoint :: "'r sdk \<Rightarrow> int \<Rightarrow> request \<Rightarrow> server_state \<Rightarrow> 'r reply \<times> server_state \<times> string list" where
  "mcp_endpoint sdk now req st =
     (case rateLimitMiddleware now req (rateLimits st) of
        (Some reply, rl) \<Rightarrow> (reply, st\<lparr>rateLimits := rl\<rparr>, [])
      | (None, rl) \<Rightarrow>
          (case contentTypeMiddleware req of
             Some reply \<Rightarrow> (reply, st\<lparr>rateLimits := rl\<rparr>, [])
           | None \<Rightarrow>
               (case req_method req of
                  POST \<Rightarrow> (let r = post_mcp sdk req (st\<lparr>rateLimits := rl\<rparr>) in (fst r, snd r, []))
                | GET \<Rightarrow> (let r = get_mcp sdk req (st\<lparr>rateLimits := rl\<rparr>) in (fst r, snd r, []))
                | DELETE \<Rightarrow> delete_mcp sdk req (st\<lparr>rateLimits := rl\<rparr>))))"

text \<open>
  A registry as the server builds it: an object has each key once, and every key was
  produced by the session id generator.
\<close>

definition registry_ok :: "transport dict \<Rightarrow> bool" where
  "registry_ok ts = (distinct (map fst ts) \<and> (\<forall>k \<in> set (map fst ts). isValidSessionId k))"

subsection \<open>A stub of the SDK and sample requests\<close>

text \<open>
  A stand-in for the SDK used in the concrete instances below: a body is an initialize
  request when its \<^verbatim>\<open>method\<close> member is \<^verbatim>\<open>"initialize"\<close>, \<^verbatim>\<open>connect\<close> succeeds, a transport
  without a session id initialises one from sixteen zero bytes, and a DELETE closes the
  transport.
\<close>

definition stub_sdk :: "unit sdk" where
  "stub_sdk =
     \<lparr>isInitializeRequest =
        (\<lambda>b. case b of JObj kvs \<Rightarrow> map_of kvs ''method'' = Some (JStr ''initialize'') | _ \<Rightarrow> False),
      connect = (\<lambda>tr. None),
      handleRequest =
        (\<lambda>tr req. \<lparr>initialized = (if sessionId tr = None then Some (replicate 16 0) else None),
                    closed = (req_method req = DELETE),
                    result = Sent ()\<rparr>)\<rparr>"

definition init_body :: json where
  "init_body =
     JObj [(''jsonrpc'', JStr ''2.0''), (''id'', JNum 1), (''method'', JStr ''initialize''),
           (''params'',
            JObj [(''protocolVersion'', JStr ''2025-03-26''), (''capabilities'', JObj []),
                  (''clientInfo'', JObj [(''name'', JStr ''client''), (''version'', JStr ''1.0.0'')])])]"

definition sample_request :: "http_method \<Rightarrow> string option \<Rightarrow> request" where
  "sample_request m sid =
     \<lparr>req_method = m, ip = Some ''10.0.0.7'', remoteAddress = None, is_json = True,
      mcp_session_id = sid, body = Some init_body\<rparr>"

definition empty_state :: server_state where
  "empty_state = \<lparr>transports = [], searchCache = [], rateLimits = []\<rparr>"

subsection \<open>The periodic cleanup and the health endpoint\<close>

text \<open>
  \<^verbatim>\<open>cleanupCache\<close> and \<^verbatim>\<open>cleanupRateLimits\<close> walk the keys that \<^verbatim>\<open>Object.keys\<close>
  returned before the loop and read each entry from the object as it is when the key is
  visited. The callback deletes no key but the one it visits, so on an object, whose
  keys are distinct, the entry is always there; the \<open>None\<close> branch keeps the function
  total.
\<close>

definition cleanupCache :: "int \<Rightarrow> 'v CacheEntry dict \<Rightarrow> 'v CacheEntry dict" where
  "cleanupCache now cache =
     fold (\<lambda>key c. case map_of c key of
                      None \<Rightarrow> c
                    | Some entry \<Rightarrow>
                        if now > timestamp entry + ttl entry then AList.delete key c else c)
          (map fst cache) cache"

definition cleanupRateLimits :: "int \<Rightarrow> RateLimitEntry dict \<Rightarrow> RateLimitEntry dict" where
  "cleanupRateLimits now limits =
     fold (\<lambda>addr c. case map_of c addr of
                       None \<Rightarrow> c
                     | Some entry \<Rightarrow>
                         if now - windowStart entry \<ge> RATE_LIMIT_WINDOW
                         then AList.delete addr c else c)
          (map fst limits) limits"

text \<open>
  The callback of \<^verbatim>\<open>setInterval(..., 300000)\<close>: it walks \<^verbatim>\<open>Object.entries(transports)\<close>,
  deletes the entries whose transport has no session id or another one than its key,
  then cleans the cache and the rate windows.
\<close>

definition defunct :: "string \<Rightarrow> transport \<Rightarrow> bool" where
  "defunct sid tr = (\<not> present (sessionId tr) \<or> sessionId tr \<noteq> Some sid)"

definition reapTransports :: "transport dict \<Rightarrow> transport dict" where
  "reapTransports ts =
     fold (\<lambda>(sid, tr) c. if defunct sid tr then AList.delete sid c else c) ts ts"

definition reaper :: "int \<Rightarrow> server_state \<Rightarrow> server_state" where
  "reaper now st =
     st\<lparr>transports := reapTransports (transports st),
        searchCache := cleanupCache now (searchCache st),
        rateLimits := cleanupRateLimits now (rateLimits st)\<rparr>"

text \<open>
  What the health handler reads of the process: \<^verbatim>\<open>process.uptime()\<close>, the two heap
  figures of \<^verbatim>\<open>process.memoryUsage()\<close> in bytes and \<^verbatim>\<open>new Date().toISOString()\<close>.
  \<open>round_mb n\<close> is \<^verbatim>\<open>Math.round(n / 1024 / 1024)\<close>.
\<close>

record process_info =
  proc_uptime :: real
  heapUsed :: int
  heapTotal :: int
  now_iso :: string

definition round_mb :: "int \<Rightarrow> int" where
  "round_mb n = (n + 524288) div 1048576"

definition health_handler :: "process_info \<Rightarrow> server_state \<Rightarrow> 'r reply" where
  "health_handler p st =
     HealthReply
       \<lparr>status = ''ok'',
        iso_timestamp = now_iso p,
        activeSessions = length (map fst (transports st)),
        cacheEntries = length (map fst (searchCache st)),
        uptime = proc_uptime p,
        memory_used = round_mb (heapUsed p),
        memory_total = round_mb (heapTotal p)\<rparr>"

text \<open>
  A GET of \<^verbatim>\<open>/health\<close> as Express routes it: the rate limiting middleware, which is
  registered for every path, then the handler.
\<close>

definition health_endpoint :: "process_info \<Rightarrow> int \<Rightarrow> request \<Rightarrow> server_state \<Rightarrow> 'r reply \<times> server_state" where
  "health_endpoint p now req st =
     (case rateLimitMiddleware now req (rateLimits st) of
        (Some reply, rl) \<Rightarrow> (reply, st\<lparr>rateLimits := rl\<rparr>)
      | (None, rl) \<Rightarrow> (health_handler p (st\<lparr>rateLimits := rl\<rparr>), st\<lparr>rateLimits := rl\<rparr>))"

subsection \<open>The search_videos tool\<close>






definition digit_char :: "nat \<Rightarrow> char" where
  "digit_char n = ''0123456789'' ! n"

function show_nat :: "nat \<Rightarrow> string" where
  "show_nat n = (if n < 10 then [digit_char n] else show_nat (n div 10) @ [digit_char (n mod 10)])"
  by pat_completeness auto
termination
  by (relation "measure id") auto

declare show_nat.simps [simp del]
























subsection \<open>The summarize tool of the McpServer variant and its 30 second timeout\<close>

text \<open>
  A second server of the repository registers a \<^verbatim>\<open>summarize\<close> tool that asks the client
  for a completion through \<^verbatim>\<open>processSamplingRequest\<close>. That function races the sampling
  request against a timer of 30000 ms with \<^verbatim>\<open>Promise.race\<close>; which of the two settles
  first, and how the sampling request settles, is a parameter. A thrown value is an
  \<^verbatim>\<open>Error\<close> with its message and, when it has one, its numeric \<^verbatim>\<open>code\<close>, or some other
  value. The sessions of this server are reduced to what the function reads of them:
  whether the client declared the sampling capability.
\<close>

datatype thrown = ErrorValue string "int option" | OtherValue

datatype 'a race = SamplingFirst "thrown + 'a" | TimerFirst

text \<open>\<^verbatim>\<open>s.includes(sub)\<close>.\<close>

fun str_includes :: "string \<Rightarrow> string \<Rightarrow> bool" where
  "str_includes [] sub = (sub = [])"
| "str_includes (c # s) sub = (take (length sub) (c # s) = sub \<or> str_includes s sub)"

definition show_int :: "int \<Rightarrow> string" where
  "show_int i = (if i < 0 then ''-'' @ show_nat (nat (- i)) else show_nat (nat i))"

text \<open>The \<^verbatim>\<open>catch\<close> block of \<^verbatim>\<open>processSamplingRequest\<close>: what it throws for a caught value.\<close>

definition rethrow :: "thrown \<Rightarrow> thrown" where
  "rethrow e =
     (case e of
        ErrorValue m c \<Rightarrow>
          if str_includes m ''timeout''
          then ErrorValue
                 ''The AI client is taking too long to respond. Please try again or check your connection.''
                 None
          else (case c of
                  Some n \<Rightarrow> ErrorValue (''MCP communication error ('' @ show_int n @ ''): '' @ m) None
                | None \<Rightarrow> e)
      | OtherValue \<Rightarrow> OtherValue)"

text \<open>
  \<^verbatim>\<open>sessions\<close> is a plain object, so \<^verbatim>\<open>sessions[sessionId]\<close> is also truthy for the
  property names it inherits from \<^verbatim>\<open>Object.prototype\<close>; such a value has no \<^verbatim>\<open>server\<close>,
  and the function then looks no further.
\<close>

definition prototype_keys :: "string list" where
  "prototype_keys =
     [''constructor'', ''__defineGetter__'', ''__defineSetter__'', ''hasOwnProperty'',
      ''__lookupGetter__'', ''__lookupSetter__'', ''isPrototypeOf'', ''propertyIsEnumerable'',
      ''toString'', ''valueOf'', ''__proto__'', ''toLocaleString'']"

definition find_sampling :: "bool dict \<Rightarrow> string option \<Rightarrow> bool" where
  "find_sampling sessions sid =
     (if present sid \<and> (map_of sessions (or_else sid []) \<noteq> None
                          \<or> or_else sid [] \<in> set prototype_keys)
      then (case map_of sessions (or_else sid []) of
              Some sampling \<Rightarrow> sampling
            | None \<Rightarrow> False)
      else (\<exists>sampling \<in> set (map snd sessions). sampling))"

definition processSamplingRequest :: "bool dict \<Rightarrow> string option \<Rightarrow> 'a race \<Rightarrow> thrown + 'a" where
  "processSamplingRequest sessions sid settled =
     (if \<not> find_sampling sessions sid
      then Inl (ErrorValue ''No client with sampling capabilities is currently connected'' None)
      else (case settled of
              SamplingFirst (Inr response) \<Rightarrow> Inr response
            | SamplingFirst (Inl e) \<Rightarrow> Inl (rethrow e)
            | TimerFirst \<Rightarrow>
                Inl (rethrow (ErrorValue ''Sampling request timed out after 30 seconds'' None))))"

text \<open>
  The tool handler. \<open>content\<close> is \<^verbatim>\<open>response.content\<close>: a string, an object with an
  optional \<^verbatim>\<open>text\<close>, or an array whose first element has optional \<^verbatim>\<open>text\<close> and
  \<^verbatim>\<open>content\<close> strings; \<open>None\<close> when the response or its content is falsy. The result is
  the text of the tool result and its \<^verbatim>\<open>isError\<close> flag.
\<close>

datatype content =
    ContentString string
  | ContentObject "string option"
  | ContentArray "(string option \<times> string option) list"

fun summaryText :: "content option \<Rightarrow> string" where
  "summaryText None = []"
| "summaryText (Some (ContentString s)) = s"
| "summaryText (Some (ContentObject t)) = or_else t []"
| "summaryText (Some (ContentArray [])) = []"
| "summaryText (Some (ContentArray ((t, c) # xs))) = or_else t (or_else c [])"

definition summarize :: "bool dict \<Rightarrow> string option \<Rightarrow> content option race \<Rightarrow> string \<times> bool" where
  "summarize sessions context_sessionId settled =
     (if present context_sessionId
      then (case processSamplingRequest sessions context_sessionId settled of
              Inr response \<Rightarrow>
                (or_else (Some (summaryText response)) ''Summary could not be generated'', False)
            | Inl e \<Rightarrow> (''Unable to generate summary due to error'', True))
      else (''No valid session found for summarization.'', True))"

section \<open>Result cache: reads after a write\<close>

lemma map_of_saveToCache:
  "map_of (saveToCache now key d t c) key = Some \<lparr>data = d, timestamp = now, ttl = t\<rparr>"
  by (simp add: saveToCache_def update_conv)

text \<open>
  C1 (as the code has it). After \<^verbatim>\<open>saveToCache(k, v, ttl)\<close> at time \<open>t0\<close>, a
  \<^verbatim>\<open>getFromCache(k)\<close> at time \<open>t0 + t\<close> returns \<open>v\<close> and leaves the cache alone whenever
  \<open>t \<le> ttl\<close>; whenever \<open>t > ttl\<close> it returns \<^verbatim>\<open>null\<close> and the key is deleted from
  the cache. The boundary \<open>t = ttl\<close> is still a hit.
\<close>

theorem cache_get_after_put:
  "getFromCache (t0 + t) k (saveToCache t0 k v ttl0 c) =
     (if t \<le> ttl0 then (Some v, saveToCache t0 k v ttl0 c)
      else (None, AList.delete k (saveToCache t0 k v ttl0 c)))
   \<and> (ttl0 < t \<longrightarrow> map_of (snd (getFromCache (t0 + t) k (saveToCache t0 k v ttl0 c))) k = None)"
  by (simp add: getFromCache_def map_of_saveToCache delete_conv)

theorem cache_get_after_put_witness:
  "getFromCache (1000 + 6) ''search_cats'' (saveToCache 1000 ''search_cats'' (7::nat) 5 [])
     = (None, [])
   \<and> getFromCache (1000 + 4) ''search_cats'' (saveToCache 1000 ''search_cats'' (7::nat) 5 [])
     = (Some 7, [(''search_cats'', \<lparr>data = 7, timestamp = 1000, ttl = 5\<rparr>)])"
  using cache_get_after_put [of 1000 6 "''search_cats''" "7::nat" 5 "[]"]
        cache_get_after_put [of 1000 4 "''search_cats''" "7::nat" 5 "[]"]
  by (simp add: saveToCache_def)

text \<open>
  C1 (as the specification states it) fails at the boundary: a read exactly \<open>ttl\<close>
  milliseconds after the write is a hit, not a miss.
\<close>

theorem cache_boundary_counterexample:
  "\<not> (\<forall>t0 t ttl0. t \<ge> ttl0 \<longrightarrow>
        fst (getFromCache (t0 + t) ''search_cats'' (saveToCache t0 ''search_cats'' (7::nat) ttl0 [])) = None)"
proof
  assume h: "\<forall>t0 t ttl0. t \<ge> ttl0 \<longrightarrow>
        fst (getFromCache (t0 + t) ''search_cats'' (saveToCache t0 ''search_cats'' (7::nat) ttl0 [])) = None"
  have "fst (getFromCache (1000 + 5) ''search_cats'' (saveToCache 1000 ''search_cats'' (7::nat) 5 [])) = None"
    using h by blast
  then show False
    by (simp add: getFromCache_def saveToCache_def)
qed

section \<open>Admission control\<close>

lemma checkRateLimit_other:
  "addr \<noteq> a \<Longrightarrow> map_of (snd (checkRateLimit now addr rl)) a = map_of rl a"
  by (simp add: checkRateLimit_def update_conv split: option.splits)

lemma checkRateLimit_fresh:
  "map_of rl addr = None \<or> (\<exists>e. map_of rl addr = Some e \<and> now - windowStart e \<ge> RATE_LIMIT_WINDOW) \<Longrightarrow>
   fst (checkRateLimit now addr rl) \<and>
   map_of (snd (checkRateLimit now addr rl)) addr = Some \<lparr>requests = 1, windowStart = now\<rparr>"
  by (auto simp add: checkRateLimit_def update_conv split: option.splits)

lemma checkRateLimit_in_window:
  "map_of rl addr = Some \<lparr>requests = c, windowStart = t0\<rparr> \<Longrightarrow> now - t0 < RATE_LIMIT_WINDOW \<Longrightarrow>
   fst (checkRateLimit now addr rl) = (c < RATE_LIMIT_MAX_REQUESTS) \<and>
   map_of (snd (checkRateLimit now addr rl)) addr =
     Some \<lparr>requests = (if c < RATE_LIMIT_MAX_REQUESTS then c + 1 else c), windowStart = t0\<rparr>"
  by (auto simp add: checkRateLimit_def update_conv split: option.splits)

lemma checkRateLimit_denied:
  "\<not> fst (checkRateLimit now addr rl) \<Longrightarrow>
   snd (checkRateLimit now addr rl) = rl \<and>
   (\<exists>e. map_of rl addr = Some e \<and> now - windowStart e < RATE_LIMIT_WINDOW
        \<and> RATE_LIMIT_MAX_REQUESTS \<le> requests e)"
  by (auto simp add: checkRateLimit_def split: option.splits if_splits)

lemma map_upt_Suc0: "map f [0..<Suc n] = f 0 # map (\<lambda>k. f (Suc k)) [0..<n]"
  by (simp only: upt_conv_Cons[of 0 "Suc n"] map_Suc_upt[symmetric] list.map map_map o_def)

text \<open>
  Inside a window opened at \<open>t0\<close> whose counter is \<open>c\<close>, the \<open>k\<close>-th further call of
  the address (counting from 0) is admitted exactly when \<open>c + k\<close> is below the limit;
  calls of other addresses in between change nothing.
\<close>

lemma admissions_in_window:
  "map_of rl a = Some \<lparr>requests = c, windowStart = t0\<rparr> \<Longrightarrow>
   \<forall>(addr, t) \<in> set calls. addr = a \<longrightarrow> t - t0 < RATE_LIMIT_WINDOW \<Longrightarrow>
   admissions a calls rl =
     map (\<lambda>k. c + int k < RATE_LIMIT_MAX_REQUESTS) [0..<length (filter (\<lambda>call. fst call = a) calls)]"
proof (induction calls arbitrary: rl c)
  case Nil
  then show ?case by simp
next
  case (Cons call calls)
  obtain addr now where call: "call = (addr, now)" by (cases call)
  let ?r = "checkRateLimit now addr rl"
  have rest: "\<forall>(addr, t) \<in> set calls. addr = a \<longrightarrow> t - t0 < RATE_LIMIT_WINDOW"
    using Cons.prems(2) by simp
  show ?case
  proof (cases "addr = a")
    case False
    then have "map_of (snd ?r) a = Some \<lparr>requests = c, windowStart = t0\<rparr>"
      using Cons.prems(1) by (simp add: checkRateLimit_other)
    from Cons.IH [OF this rest] False show ?thesis
      by (simp add: call Let_def)
  next
    case True
    then have inw: "now - t0 < RATE_LIMIT_WINDOW"
      using Cons.prems(2) call by simp
    note step = checkRateLimit_in_window [OF Cons.prems(1) [unfolded True [symmetric]] inw]
    show ?thesis
    proof (cases "c < RATE_LIMIT_MAX_REQUESTS")
      case lt: True
      with step have "map_of (snd ?r) a = Some \<lparr>requests = c + 1, windowStart = t0\<rparr>"
        using True by simp
      from Cons.IH [OF this rest] step lt True show ?thesis
        by (simp add: call Let_def map_upt_Suc0 add.assoc del: upt_Suc)
    next
      case ge: False
      with step have "map_of (snd ?r) a = Some \<lparr>requests = c, windowStart = t0\<rparr>"
        using True by simp
      from Cons.IH [OF this rest] step ge True show ?thesis
        by (simp add: call Let_def map_upt_Suc0 del: upt_Suc)
    qed
  qed
qed

text \<open>
  C2. For a fixed client address \<open>a\<close>: when a call at \<open>t0\<close> opens a window (no entry
  yet, or the stored window has \<open>t0 - windowStart \<ge> W\<close>) and every later call of \<open>a\<close>
  falls inside that window, the \<open>k\<close>-th call of \<open>a\<close> (from 0) is admitted exactly when
  \<open>k < L\<close>: the first \<open>L = 100\<close> succeed and the next ones are denied, whatever other
  addresses do in between. For one call on a stored window \<open>e\<close> with a count of at
  least 1: a fresh window with count 1 starts exactly when \<open>now - windowStart \<ge> W\<close>;
  otherwise the call is admitted exactly when \<open>count < L\<close>, and the count is then
  incremented, the window start kept.
\<close>

theorem rate_limit_window:
  "((map_of rl a = None \<or> (\<exists>e. map_of rl a = Some e \<and> t0 - windowStart e \<ge> RATE_LIMIT_WINDOW))
      \<and> (\<forall>(addr, t) \<in> set calls. addr = a \<longrightarrow> t - t0 < RATE_LIMIT_WINDOW)
     \<longrightarrow> admissions a ((a, t0) # calls) rl =
           map (\<lambda>k. int k < RATE_LIMIT_MAX_REQUESTS)
               [0..<Suc (length (filter (\<lambda>call. fst call = a) calls))])
   \<and> (map_of rl a = Some e \<and> 1 \<le> requests e
     \<longrightarrow> ((map_of (snd (checkRateLimit now a rl)) a = Some \<lparr>requests = 1, windowStart = now\<rparr>)
            = (now - windowStart e \<ge> RATE_LIMIT_WINDOW))
         \<and> (now - windowStart e \<ge> RATE_LIMIT_WINDOW \<longrightarrow> fst (checkRateLimit now a rl))
         \<and> (now - windowStart e < RATE_LIMIT_WINDOW
            \<longrightarrow> fst (checkRateLimit now a rl) = (requests e < RATE_LIMIT_MAX_REQUESTS)
              \<and> map_of (snd (checkRateLimit now a rl)) a =
                  Some (if requests e < RATE_LIMIT_MAX_REQUESTS
                        then e\<lparr>requests := requests e + 1\<rparr> else e)))"
proof (intro conjI impI)
  assume h: "(map_of rl a = None \<or> (\<exists>e. map_of rl a = Some e \<and> t0 - windowStart e \<ge> RATE_LIMIT_WINDOW))
      \<and> (\<forall>(addr, t) \<in> set calls. addr = a \<longrightarrow> t - t0 < RATE_LIMIT_WINDOW)"
  note first = checkRateLimit_fresh [OF conjunct1 [OF h]]
  from first have e: "map_of (snd (checkRateLimit t0 a rl)) a = Some \<lparr>requests = 1, windowStart = t0\<rparr>"
    by simp
  from admissions_in_window [OF e conjunct2 [OF h]] first
  show "admissions a ((a, t0) # calls) rl =
           map (\<lambda>k. int k < RATE_LIMIT_MAX_REQUESTS)
               [0..<Suc (length (filter (\<lambda>call. fst call = a) calls))]"
    by (simp add: Let_def map_upt_Suc0 RATE_LIMIT_MAX_REQUESTS_def del: upt_Suc)
next
  assume h: "map_of rl a = Some e \<and> 1 \<le> requests e"
  then show "(map_of (snd (checkRateLimit now a rl)) a = Some \<lparr>requests = 1, windowStart = now\<rparr>)
            = (now - windowStart e \<ge> RATE_LIMIT_WINDOW)"
    by (cases e) (auto simp add: checkRateLimit_def update_conv RATE_LIMIT_MAX_REQUESTS_def)
next
  assume "map_of rl a = Some e \<and> 1 \<le> requests e" "now - windowStart e \<ge> RATE_LIMIT_WINDOW"
  then show "fst (checkRateLimit now a rl)"
    by (simp add: checkRateLimit_def)
next
  assume "map_of rl a = Some e \<and> 1 \<le> requests e" "now - windowStart e < RATE_LIMIT_WINDOW"
  then show "fst (checkRateLimit now a rl) = (requests e < RATE_LIMIT_MAX_REQUESTS)"
    by (simp add: checkRateLimit_def)
next
  assume "map_of rl a = Some e \<and> 1 \<le> requests e" "now - windowStart e < RATE_LIMIT_WINDOW"
  then show "map_of (snd (checkRateLimit now a rl)) a =
                  Some (if requests e < RATE_LIMIT_MAX_REQUESTS
                        then e\<lparr>requests := requests e + 1\<rparr> else e)"
    by (simp add: checkRateLimit_def update_conv)
qed

theorem rate_limit_window_witness:
  "admissions ''10.0.0.7'' ((''10.0.0.7'', 5) # replicate 100 (''10.0.0.7'', 59000)) []
     = replicate 100 True @ [False]
   \<and> fst (checkRateLimit 60005 ''10.0.0.7'' [(''10.0.0.7'', \<lparr>requests = 100, windowStart = 5\<rparr>)])
   \<and> map_of (snd (checkRateLimit 60005 ''10.0.0.7''
                     [(''10.0.0.7'', \<lparr>requests = 100, windowStart = 5\<rparr>)])) ''10.0.0.7''
       = Some \<lparr>requests = 1, windowStart = 60005\<rparr>
   \<and> \<not> fst (checkRateLimit 60004 ''10.0.0.7'' [(''10.0.0.7'', \<lparr>requests = 100, windowStart = 5\<rparr>)])
   \<and> map_of (snd (checkRateLimit 60004 ''10.0.0.7''
                     [(''10.0.0.7'', \<lparr>requests = 100, windowStart = 5\<rparr>)])) ''10.0.0.7''
       = Some \<lparr>requests = 100, windowStart = 5\<rparr>
   \<and> fst (checkRateLimit 60004 ''10.0.0.7'' [(''10.0.0.7'', \<lparr>requests = 99, windowStart = 5\<rparr>)])
   \<and> map_of (snd (checkRateLimit 60004 ''10.0.0.7''
                     [(''10.0.0.7'', \<lparr>requests = 99, windowStart = 5\<rparr>)])) ''10.0.0.7''
       = Some \<lparr>requests = 100, windowStart = 5\<rparr>"
proof -
  let ?a = "''10.0.0.7''"
  have run: "map (\<lambda>k. int k < 100) [0..<Suc 100] = replicate 100 True @ [False]"
    by code_simp
  have 1: "admissions ?a ((?a, 5) # replicate 100 (?a, 59000)) [] = replicate 100 True @ [False]"
    using rate_limit_window [where rl = "[]" and a = ?a and ?t0.0 = 5
            and calls = "replicate 100 (?a, 59000)"] run
    by (simp add: RATE_LIMIT_WINDOW_def RATE_LIMIT_MAX_REQUESTS_def del: upt_Suc replicate_Suc)
  have 2: "fst (checkRateLimit 60005 ?a [(?a, \<lparr>requests = 100, windowStart = 5\<rparr>)])
     \<and> map_of (snd (checkRateLimit 60005 ?a [(?a, \<lparr>requests = 100, windowStart = 5\<rparr>)])) ?a
         = Some \<lparr>requests = 1, windowStart = 60005\<rparr>"
    using rate_limit_window [where rl = "[(?a, \<lparr>requests = 100, windowStart = 5\<rparr>)]" and a = ?a
            and e = "\<lparr>requests = 100, windowStart = 5\<rparr>" and now = 60005]
    by (simp add: RATE_LIMIT_WINDOW_def)
  have 3: "\<not> fst (checkRateLimit 60004 ?a [(?a, \<lparr>requests = 100, windowStart = 5\<rparr>)])
     \<and> map_of (snd (checkRateLimit 60004 ?a [(?a, \<lparr>requests = 100, windowStart = 5\<rparr>)])) ?a
         = Some \<lparr>requests = 100, windowStart = 5\<rparr>"
    using rate_limit_window [where rl = "[(?a, \<lparr>requests = 100, windowStart = 5\<rparr>)]" and a = ?a
            and e = "\<lparr>requests = 100, windowStart = 5\<rparr>" and now = 60004]
    by (simp add: RATE_LIMIT_WINDOW_def RATE_LIMIT_MAX_REQUESTS_def)
  have 4: "fst (checkRateLimit 60004 ?a [(?a, \<lparr>requests = 99, windowStart = 5\<rparr>)])
     \<and> map_of (snd (checkRateLimit 60004 ?a [(?a, \<lparr>requests = 99, windowStart = 5\<rparr>)])) ?a
         = Some \<lparr>requests = 100, windowStart = 5\<rparr>"
    using rate_limit_window [where rl = "[(?a, \<lparr>requests = 99, windowStart = 5\<rparr>)]" and a = ?a
            and e = "\<lparr>requests = 99, windowStart = 5\<rparr>" and now = 60004]
    by (simp add: RATE_LIMIT_WINDOW_def RATE_LIMIT_MAX_REQUESTS_def)
  from 1 2 3 4 show ?thesis by blast
qed

text \<open>
  C3 (as the code has it). Whenever the middleware denies a request, the reply is the
  429 envelope with code -32000 whose \<^verbatim>\<open>data.retryAfter\<close> is the constant
  \<open>ceil (W / 1000) = 60\<close> seconds, the full window length, whatever the remaining time of
  the denied client's window; the rate windows are left as they were. The denied client
  has a window with time remaining, and 60 seconds bound that remaining time from above
  whenever the window did not start after \<open>now\<close>.
\<close>

theorem retry_after_full_window:
  "fst (rateLimitMiddleware now req rl) = Some reply \<longrightarrow>
     reply = ErrorReply 429
               (createErrorResponse (- 32000) ''Too many requests. Please try again later.''
                  (Some JNull) (Some (JObj [(''retryAfter'', JNum 60)])))
     \<and> retryAfter reply = Some (JNum 60)
     \<and> snd (rateLimitMiddleware now req rl :: 'r reply option \<times> RateLimitEntry dict) = rl
     \<and> (\<exists>e. map_of rl (clientIP req) = Some e
            \<and> 0 < remaining_window now e
            \<and> (windowStart e \<le> now \<longrightarrow> remaining_window now e \<le> 60 * 1000))"
proof
  assume a: "fst (rateLimitMiddleware now req rl) = Some reply"
  then have denied: "\<not> fst (checkRateLimit now (clientIP req) rl)"
    by (auto simp add: rateLimitMiddleware_def Let_def split: if_splits)
  from a denied have r: "reply = ErrorReply 429
               (createErrorResponse (- 32000) ''Too many requests. Please try again later.''
                  (Some JNull) (Some (JObj [(''retryAfter'', JNum 60)])))"
    by (simp add: rateLimitMiddleware_def Let_def ceil_div_def RATE_LIMIT_WINDOW_def)
  have ra: "retryAfter reply = Some (JNum 60)"
    by (simp add: r createErrorResponse_def)
  from checkRateLimit_denied [OF denied] denied
  have st: "snd (rateLimitMiddleware now req rl :: 'r reply option \<times> RateLimitEntry dict) = rl"
    by (simp add: rateLimitMiddleware_def Let_def)
  from checkRateLimit_denied [OF denied]
  have "\<exists>e. map_of rl (clientIP req) = Some e
            \<and> 0 < remaining_window now e
            \<and> (windowStart e \<le> now \<longrightarrow> remaining_window now e \<le> 60 * 1000)"
    by (auto simp add: remaining_window_def RATE_LIMIT_WINDOW_def)
  with r ra st show "reply = ErrorReply 429
               (createErrorResponse (- 32000) ''Too many requests. Please try again later.''
                  (Some JNull) (Some (JObj [(''retryAfter'', JNum 60)])))
     \<and> retryAfter reply = Some (JNum 60)
     \<and> snd (rateLimitMiddleware now req rl :: 'r reply option \<times> RateLimitEntry dict) = rl
     \<and> (\<exists>e. map_of rl (clientIP req) = Some e
            \<and> 0 < remaining_window now e
            \<and> (windowStart e \<le> now \<longrightarrow> remaining_window now e \<le> 60 * 1000))"
    by blast
qed

theorem retry_after_full_window_witness:
  "fst (rateLimitMiddleware 30000
          \<lparr>req_method = GET, ip = Some ''10.0.0.7'', remoteAddress = None, is_json = False,
           mcp_session_id = None, body = None\<rparr>
          [(''10.0.0.7'', \<lparr>requests = 100, windowStart = 0\<rparr>)])
     = Some (ErrorReply 429
               (createErrorResponse (- 32000) ''Too many requests. Please try again later.''
                  (Some JNull) (Some (JObj [(''retryAfter'', JNum 60)]))) :: unit reply)
   \<and> retryAfter (ErrorReply 429
               (createErrorResponse (- 32000) ''Too many requests. Please try again later.''
                  (Some JNull) (Some (JObj [(''retryAfter'', JNum 60)]))) :: unit reply)
      = Some (JNum 60)"
proof -
  have "fst (rateLimitMiddleware 30000
          \<lparr>req_method = GET, ip = Some ''10.0.0.7'', remoteAddress = None, is_json = False,
           mcp_session_id = None, body = None\<rparr>
          [(''10.0.0.7'', \<lparr>requests = 100, windowStart = 0\<rparr>)])
     = Some (ErrorReply 429
               (createErrorResponse (- 32000) ''Too many requests. Please try again later.''
                  (Some JNull) (Some (JObj [(''retryAfter'', JNum 60)]))) :: unit reply)"
    by (simp add: rateLimitMiddleware_def checkRateLimit_def clientIP_def or_else_def Let_def
          ceil_div_def RATE_LIMIT_WINDOW_def RATE_LIMIT_MAX_REQUESTS_def)
  with retry_after_full_window [of 30000
          "\<lparr>req_method = GET, ip = Some ''10.0.0.7'', remoteAddress = None, is_json = False,
           mcp_session_id = None, body = None\<rparr>"
          "[(''10.0.0.7'', \<lparr>requests = 100, windowStart = 0\<rparr>)]"
          "ErrorReply 429
               (createErrorResponse (- 32000) ''Too many requests. Please try again later.''
                  (Some JNull) (Some (JObj [(''retryAfter'', JNum 60)]))) :: unit reply"]
  show ?thesis by blast
qed

text \<open>
  C3 (as the specification states it) fails: a client denied 30 seconds into its window
  is told 60, which is neither the remaining 30000 milliseconds nor the remaining 30
  seconds.
\<close>

theorem retry_after_counterexample:
  "\<not> (\<forall>now req rl (reply :: unit reply) e.
        fst (rateLimitMiddleware now req rl) = Some reply \<and> map_of rl (clientIP req) = Some e
        \<longrightarrow> retryAfter reply = Some (JNum (remaining_window now e))
          \<or> retryAfter reply = Some (JNum (ceil_div (remaining_window now e) 1000)))"
proof
  assume h: "\<forall>now req rl (reply :: unit reply) e.
        fst (rateLimitMiddleware now req rl) = Some reply \<and> map_of rl (clientIP req) = Some e
        \<longrightarrow> retryAfter reply = Some (JNum (remaining_window now e))
          \<or> retryAfter reply = Some (JNum (ceil_div (remaining_window now e) 1000))"
  let ?req = "\<lparr>req_method = GET, ip = Some ''10.0.0.7'', remoteAddress = None, is_json = False,
           mcp_session_id = None, body = None\<rparr>"
  let ?e = "\<lparr>requests = 100, windowStart = 0\<rparr>"
  let ?reply = "ErrorReply 429
               (createErrorResponse (- 32000) ''Too many requests. Please try again later.''
                  (Some JNull) (Some (JObj [(''retryAfter'', JNum 60)]))) :: unit reply"
  have d: "fst (rateLimitMiddleware 30000 ?req [(''10.0.0.7'', ?e)]) = Some ?reply"
    by (simp add: rateLimitMiddleware_def checkRateLimit_def clientIP_def or_else_def Let_def
          ceil_div_def RATE_LIMIT_WINDOW_def RATE_LIMIT_MAX_REQUESTS_def)
  have m: "map_of [(''10.0.0.7'', ?e)] (clientIP ?req) = Some ?e"
    by (simp add: clientIP_def or_else_def)
  from h d m have "retryAfter ?reply = Some (JNum (remaining_window 30000 ?e))
          \<or> retryAfter ?reply = Some (JNum (ceil_div (remaining_window 30000 ?e) 1000))"
    by blast
  then show False
    by (simp add: createErrorResponse_def remaining_window_def ceil_div_def RATE_LIMIT_WINDOW_def)
qed

section \<open>Session identifiers are checked before the registry\<close>

lemma valid_nonempty: "isValidSessionId s \<Longrightarrow> s \<noteq> []"
  by (auto simp add: isValidSessionId_def session_id_pattern_def numeral_eq_Suc)

lemma post_mcp_malformed:
  "mcp_session_id req = Some s \<Longrightarrow> s \<noteq> [] \<Longrightarrow> \<not> isValidSessionId s \<Longrightarrow>
   post_mcp sdk req st =
     (case body req of
        None \<Rightarrow> (ErrorReply 400 (createErrorResponse (- 32600)
             ''Invalid Request: Body must be a valid JSON object'' (Some JNull) None), st)
      | Some b \<Rightarrow>
          if \<not> truthy b \<or> \<not> is_object b
          then (ErrorReply 400 (createErrorResponse (- 32600)
                  ''Invalid Request: Body must be a valid JSON object'' (Some JNull) None), st)
          else (bad_request ''Invalid session ID format'' (body_id b), st))"
  by (simp add: post_mcp_def split: option.splits)

lemma get_mcp_malformed:
  "mcp_session_id req = Some s \<Longrightarrow> s \<noteq> [] \<Longrightarrow> \<not> isValidSessionId s \<Longrightarrow>
   get_mcp sdk req st = (bad_request ''Bad Request: Invalid session ID format'' (Some JNull), st)"
  by (simp add: get_mcp_def or_else_def)

lemma delete_mcp_malformed:
  "mcp_session_id req = Some s \<Longrightarrow> s \<noteq> [] \<Longrightarrow> \<not> isValidSessionId s \<Longrightarrow>
   delete_mcp sdk req st =
     (bad_request ''Bad Request: Invalid session ID format'' (opt_body_id (body req)), st, [])"
  by (simp add: delete_mcp_def or_else_def)

lemma post_mcp_unknown:
  "mcp_session_id req = Some s \<Longrightarrow> isValidSessionId s \<Longrightarrow> map_of (transports st) s = None \<Longrightarrow>
   post_mcp sdk req st =
     (case body req of
        None \<Rightarrow> (ErrorReply 400 (createErrorResponse (- 32600)
             ''Invalid Request: Body must be a valid JSON object'' (Some JNull) None), st)
      | Some b \<Rightarrow>
          if \<not> truthy b \<or> \<not> is_object b
          then (ErrorReply 400 (createErrorResponse (- 32600)
                  ''Invalid Request: Body must be a valid JSON object'' (Some JNull) None), st)
          else (bad_request ''Bad Request: No valid session ID provided or not an initialize request''
                  (body_id b), st))"
  by (frule valid_nonempty) (simp add: post_mcp_def split: option.splits)

lemma get_mcp_unknown:
  "mcp_session_id req = Some s \<Longrightarrow> isValidSessionId s \<Longrightarrow> map_of (transports st) s = None \<Longrightarrow>
   get_mcp sdk req st = (bad_request ''Bad Request: Session not found or expired'' (Some JNull), st)"
  by (frule valid_nonempty) (simp add: get_mcp_def or_else_def)

lemma delete_mcp_unknown:
  "mcp_session_id req = Some s \<Longrightarrow> isValidSessionId s \<Longrightarrow> map_of (transports st) s = None \<Longrightarrow>
   delete_mcp sdk req st =
     (bad_request ''Bad Request: Session not found or already terminated''
        (opt_body_id (body req)), st, [])"
  by (frule valid_nonempty) (simp add: delete_mcp_def or_else_def)

lemma rateLimitMiddleware_header:
  "rateLimitMiddleware now (req\<lparr>mcp_session_id := x\<rparr>) rl = rateLimitMiddleware now req rl"
  by (simp add: rateLimitMiddleware_def clientIP_def)

lemma contentTypeMiddleware_header:
  "contentTypeMiddleware (req\<lparr>mcp_session_id := x\<rparr>) = contentTypeMiddleware req"
  by (simp add: contentTypeMiddleware_def)

lemma mcp_endpoint_malformed:
  assumes "mcp_session_id req = Some s" "s \<noteq> []" "\<not> isValidSessionId s"
  shows "mcp_endpoint sdk now req st =
     (case rateLimitMiddleware now req (rateLimits st) of
        (Some reply, rl) \<Rightarrow> (reply, st\<lparr>rateLimits := rl\<rparr>, [])
      | (None, rl) \<Rightarrow>
          (case contentTypeMiddleware req of
             Some reply \<Rightarrow> (reply, st\<lparr>rateLimits := rl\<rparr>, [])
           | None \<Rightarrow>
               (case req_method req of
                  POST \<Rightarrow>
                    (case body req of
                       None \<Rightarrow> ErrorReply 400 (createErrorResponse (- 32600)
                           ''Invalid Request: Body must be a valid JSON object'' (Some JNull) None)
                     | Some b \<Rightarrow>
                         if \<not> truthy b \<or> \<not> is_object b
                         then ErrorReply 400 (createErrorResponse (- 32600)
                                ''Invalid Request: Body must be a valid JSON object'' (Some JNull) None)
                         else bad_request ''Invalid session ID format'' (body_id b))
                | GET \<Rightarrow> bad_request ''Bad Request: Invalid session ID format'' (Some JNull)
                | DELETE \<Rightarrow> bad_request ''Bad Request: Invalid session ID format''
                              (opt_body_id (body req)),
                st\<lparr>rateLimits := rl\<rparr>, [])))"
  using assms
  by (simp add: mcp_endpoint_def post_mcp_malformed get_mcp_malformed delete_mcp_malformed Let_def
      split: prod.splits option.splits http_method.splits)

lemma mcp_endpoint_unknown:
  assumes "mcp_session_id req = Some s" "isValidSessionId s" "map_of (transports st) s = None"
  shows "mcp_endpoint sdk now req st =
     (case rateLimitMiddleware now req (rateLimits st) of
        (Some reply, rl) \<Rightarrow> (reply, st\<lparr>rateLimits := rl\<rparr>, [])
      | (None, rl) \<Rightarrow>
          (case contentTypeMiddleware req of
             Some reply \<Rightarrow> (reply, st\<lparr>rateLimits := rl\<rparr>, [])
           | None \<Rightarrow>
               (case req_method req of
                  POST \<Rightarrow>
                    (case body req of
                       None \<Rightarrow> ErrorReply 400 (createErrorResponse (- 32600)
                           ''Invalid Request: Body must be a valid JSON object'' (Some JNull) None)
                     | Some b \<Rightarrow>
                         if \<not> truthy b \<or> \<not> is_object b
                         then ErrorReply 400 (createErrorResponse (- 32600)
                                ''Invalid Request: Body must be a valid JSON object'' (Some JNull) None)
                         else bad_request
                                ''Bad Request: No valid session ID provided or not an initialize request''
                                (body_id b))
                | GET \<Rightarrow> bad_request ''Bad Request: Session not found or expired'' (Some JNull)
                | DELETE \<Rightarrow> bad_request ''Bad Request: Session not found or already terminated''
                              (opt_body_id (body req)),
                st\<lparr>rateLimits := rl\<rparr>, [])))"
  using assms
  by (simp add: mcp_endpoint_def post_mcp_unknown get_mcp_unknown delete_mcp_unknown Let_def
      split: prod.splits option.splits http_method.splits)

lemma contentType_replies:
  "contentTypeMiddleware req = Some reply \<Longrightarrow> \<exists>e. reply = ErrorReply 415 e \<and> code (error e) = - 32600"
  by (auto simp add: contentTypeMiddleware_def split: if_splits)

lemma rateLimit_replies:
  "rateLimitMiddleware now req rl = (Some reply, rl') \<Longrightarrow> \<exists>e. reply = ErrorReply 429 e"
  by (auto simp add: rateLimitMiddleware_def Let_def split: if_splits)

lemma malformed_rejected_nonempty:
  "mcp_session_id req = Some s \<and> s \<noteq> [] \<and> \<not> isValidSessionId s \<longrightarrow>
     (\<exists>n e. fst (mcp_endpoint sdk now req st) = ErrorReply n e \<and> (n = 400 \<or> n = 415 \<or> n = 429))
     \<and> transports (fst (snd (mcp_endpoint sdk now req st))) = transports st
     \<and> (\<forall>ts sdk'. fst (mcp_endpoint sdk' now req (st\<lparr>transports := ts\<rparr>))
                   = fst (mcp_endpoint sdk now req st))
     \<and> (\<forall>e s'. fst (mcp_endpoint sdk now req st) = ErrorReply 400 e \<and> code (error e) = - 32000
                \<and> isValidSessionId s' \<and> map_of (transports st) s' = None
          \<longrightarrow> message (error e) = (if req_method req = POST then ''Invalid session ID format''
                                    else ''Bad Request: Invalid session ID format'')
            \<and> (\<exists>e'. fst (mcp_endpoint sdk now (req\<lparr>mcp_session_id := Some s'\<rparr>) st) = ErrorReply 400 e'
                  \<and> code (error e') = - 32000
                  \<and> message (error e') =
                      (case req_method req of
                         POST \<Rightarrow> ''Bad Request: No valid session ID provided or not an initialize request''
                       | GET \<Rightarrow> ''Bad Request: Session not found or expired''
                       | DELETE \<Rightarrow> ''Bad Request: Session not found or already terminated''))
            \<and> fst (mcp_endpoint sdk now (req\<lparr>mcp_session_id := Some s'\<rparr>) st)
                \<noteq> fst (mcp_endpoint sdk now req st))"
proof
  assume h: "mcp_session_id req = Some s \<and> s \<noteq> [] \<and> \<not> isValidSessionId s"
  then have a: "mcp_session_id req = Some s" "s \<noteq> []" "\<not> isValidSessionId s" by simp_all
  note bad = mcp_endpoint_malformed [OF a]
  obtain mr rl where rm: "rateLimitMiddleware now req (rateLimits st) = (mr :: 'a reply option, rl)"
    by (cases "rateLimitMiddleware now req (rateLimits st) :: 'a reply option \<times> _") 
  have 1: "\<exists>n e. fst (mcp_endpoint sdk now req st) = ErrorReply n e \<and> (n = 400 \<or> n = 415 \<or> n = 429)"
    using rm
    by (auto simp add: bad bad_request_def dest: rateLimit_replies contentType_replies
        split: option.splits http_method.splits)
  have 2: "transports (fst (snd (mcp_endpoint sdk now req st))) = transports st"
    by (simp add: bad split: prod.splits option.splits)
  have 3: "\<forall>ts sdk'. fst (mcp_endpoint sdk' now req (st\<lparr>transports := ts\<rparr>))
                   = fst (mcp_endpoint sdk now req st)"
    by (simp add: bad mcp_endpoint_malformed [OF a, of _ _ "st\<lparr>transports := ts\<rparr>" for ts]
        split: prod.splits option.splits)
  have 4: "\<forall>e s'. fst (mcp_endpoint sdk now req st) = ErrorReply 400 e \<and> code (error e) = - 32000
                \<and> isValidSessionId s' \<and> map_of (transports st) s' = None
          \<longrightarrow> message (error e) = (if req_method req = POST then ''Invalid session ID format''
                                    else ''Bad Request: Invalid session ID format'')
            \<and> (\<exists>e'. fst (mcp_endpoint sdk now (req\<lparr>mcp_session_id := Some s'\<rparr>) st) = ErrorReply 400 e'
                  \<and> code (error e') = - 32000
                  \<and> message (error e') =
                      (case req_method req of
                         POST \<Rightarrow> ''Bad Request: No valid session ID provided or not an initialize request''
                       | GET \<Rightarrow> ''Bad Request: Session not found or expired''
                       | DELETE \<Rightarrow> ''Bad Request: Session not found or already terminated''))
            \<and> fst (mcp_endpoint sdk now (req\<lparr>mcp_session_id := Some s'\<rparr>) st)
                \<noteq> fst (mcp_endpoint sdk now req st)"
  proof (intro allI impI)
    fix e s'
    assume g: "fst (mcp_endpoint sdk now req st) = ErrorReply 400 e \<and> code (error e) = - 32000
                \<and> isValidSessionId s' \<and> map_of (transports st) s' = None"
    let ?req' = "req\<lparr>mcp_session_id := Some s'\<rparr>"
    have u: "mcp_session_id ?req' = Some s'" by simp
    note unk = mcp_endpoint_unknown [OF u conjunct1 [OF conjunct2 [OF conjunct2 [OF g]]]
                 conjunct2 [OF conjunct2 [OF conjunct2 [OF g]]], of sdk now]
    from g rm show "message (error e) = (if req_method req = POST then ''Invalid session ID format''
                                    else ''Bad Request: Invalid session ID format'')
            \<and> (\<exists>e'. fst (mcp_endpoint sdk now ?req' st) = ErrorReply 400 e'
                  \<and> code (error e') = - 32000
                  \<and> message (error e') =
                      (case req_method req of
                         POST \<Rightarrow> ''Bad Request: No valid session ID provided or not an initialize request''
                       | GET \<Rightarrow> ''Bad Request: Session not found or expired''
                       | DELETE \<Rightarrow> ''Bad Request: Session not found or already terminated''))
            \<and> fst (mcp_endpoint sdk now ?req' st) \<noteq> fst (mcp_endpoint sdk now req st)"
      unfolding unk bad rateLimitMiddleware_header contentTypeMiddleware_header
      by (cases mr; cases "contentTypeMiddleware req :: 'a reply option"; cases "req_method req";
          cases "body req")
         (auto simp add: bad_request_def createErrorResponse_def
            dest!: rateLimit_replies contentType_replies split: if_splits)
  qed
  from 1 2 3 4 show "(\<exists>n e. fst (mcp_endpoint sdk now req st) = ErrorReply n e \<and> (n = 400 \<or> n = 415 \<or> n = 429))
     \<and> transports (fst (snd (mcp_endpoint sdk now req st))) = transports st
     \<and> (\<forall>ts sdk'. fst (mcp_endpoint sdk' now req (st\<lparr>transports := ts\<rparr>))
                   = fst (mcp_endpoint sdk now req st))
     \<and> (\<forall>e s'. fst (mcp_endpoint sdk now req st) = ErrorReply 400 e \<and> code (error e) = - 32000
                \<and> isValidSessionId s' \<and> map_of (transports st) s' = None
          \<longrightarrow> message (error e) = (if req_method req = POST then ''Invalid session ID format''
                                    else ''Bad Request: Invalid session ID format'')
            \<and> (\<exists>e'. fst (mcp_endpoint sdk now (req\<lparr>mcp_session_id := Some s'\<rparr>) st) = ErrorReply 400 e'
                  \<and> code (error e') = - 32000
                  \<and> message (error e') =
                      (case req_method req of
                         POST \<Rightarrow> ''Bad Request: No valid session ID provided or not an initialize request''
                       | GET \<Rightarrow> ''Bad Request: Session not found or expired''
                       | DELETE \<Rightarrow> ''Bad Request: Session not found or already terminated''))
            \<and> fst (mcp_endpoint sdk now (req\<lparr>mcp_session_id := Some s'\<rparr>) st)
                \<noteq> fst (mcp_endpoint sdk now req st))"
    by blast
qed

text \<open>
  C4 (as the code has it). A request to \<^verbatim>\<open>/mcp\<close> whose \<^verbatim>\<open>mcp-session-id\<close> header is a
  non-empty string failing the format check is answered with a client error (400, 415
  or 429); the session registry is unchanged, and the reply is the same whatever the
  registry holds and whatever the SDK would do, so the registry is neither read nor
  written. When that reply is the 400 envelope with code -32000, it is the
  invalid-format rejection of the verb, and a well-formed identifier that is not in the
  registry gets, on the same request, a different reply: the verb's not-found rejection.
  An empty header is not checked against the format: GET and DELETE reject it as a
  missing identifier, and POST handles the request as one without identifier.
\<close>

theorem malformed_session_id_rejected:
  "(mcp_session_id req = Some s \<and> s \<noteq> [] \<and> \<not> isValidSessionId s \<longrightarrow>
     (\<exists>n e. fst (mcp_endpoint sdk now req st) = ErrorReply n e \<and> (n = 400 \<or> n = 415 \<or> n = 429))
     \<and> transports (fst (snd (mcp_endpoint sdk now req st))) = transports st
     \<and> (\<forall>ts sdk'. fst (mcp_endpoint sdk' now req (st\<lparr>transports := ts\<rparr>))
                   = fst (mcp_endpoint sdk now req st))
     \<and> (\<forall>e s'. fst (mcp_endpoint sdk now req st) = ErrorReply 400 e \<and> code (error e) = - 32000
                \<and> isValidSessionId s' \<and> map_of (transports st) s' = None
          \<longrightarrow> message (error e) = (if req_method req = POST then ''Invalid session ID format''
                                    else ''Bad Request: Invalid session ID format'')
            \<and> (\<exists>e'. fst (mcp_endpoint sdk now (req\<lparr>mcp_session_id := Some s'\<rparr>) st) = ErrorReply 400 e'
                  \<and> code (error e') = - 32000
                  \<and> message (error e') =
                      (case req_method req of
                         POST \<Rightarrow> ''Bad Request: No valid session ID provided or not an initialize request''
                       | GET \<Rightarrow> ''Bad Request: Session not found or expired''
                       | DELETE \<Rightarrow> ''Bad Request: Session not found or already terminated''))
            \<and> fst (mcp_endpoint sdk now (req\<lparr>mcp_session_id := Some s'\<rparr>) st)
                \<noteq> fst (mcp_endpoint sdk now req st)))
   \<and> (mcp_session_id req = Some [] \<longrightarrow>
        get_mcp sdk req st = (bad_request ''Bad Request: No session ID provided'' (Some JNull), st)
        \<and> delete_mcp sdk req st =
            (bad_request ''Bad Request: No session ID provided'' (opt_body_id (body req)), st, [])
        \<and> (\<forall>b. body req = Some b \<and> truthy b \<and> is_object b \<longrightarrow>
              post_mcp sdk req st = post_without_session sdk req b st))"
proof
  show "mcp_session_id req = Some s \<and> s \<noteq> [] \<and> \<not> isValidSessionId s \<longrightarrow>
     (\<exists>n e. fst (mcp_endpoint sdk now req st) = ErrorReply n e \<and> (n = 400 \<or> n = 415 \<or> n = 429))
     \<and> transports (fst (snd (mcp_endpoint sdk now req st))) = transports st
     \<and> (\<forall>ts sdk'. fst (mcp_endpoint sdk' now req (st\<lparr>transports := ts\<rparr>))
                   = fst (mcp_endpoint sdk now req st))
     \<and> (\<forall>e s'. fst (mcp_endpoint sdk now req st) = ErrorReply 400 e \<and> code (error e) = - 32000
                \<and> isValidSessionId s' \<and> map_of (transports st) s' = None
          \<longrightarrow> message (error e) = (if req_method req = POST then ''Invalid session ID format''
                                    else ''Bad Request: Invalid session ID format'')
            \<and> (\<exists>e'. fst (mcp_endpoint sdk now (req\<lparr>mcp_session_id := Some s'\<rparr>) st) = ErrorReply 400 e'
                  \<and> code (error e') = - 32000
                  \<and> message (error e') =
                      (case req_method req of
                         POST \<Rightarrow> ''Bad Request: No valid session ID provided or not an initialize request''
                       | GET \<Rightarrow> ''Bad Request: Session not found or expired''
                       | DELETE \<Rightarrow> ''Bad Request: Session not found or already terminated''))
            \<and> fst (mcp_endpoint sdk now (req\<lparr>mcp_session_id := Some s'\<rparr>) st)
                \<noteq> fst (mcp_endpoint sdk now req st))"
    by (rule malformed_rejected_nonempty)
  show "mcp_session_id req = Some [] \<longrightarrow>
        get_mcp sdk req st = (bad_request ''Bad Request: No session ID provided'' (Some JNull), st)
        \<and> delete_mcp sdk req st =
            (bad_request ''Bad Request: No session ID provided'' (opt_body_id (body req)), st, [])
        \<and> (\<forall>b. body req = Some b \<and> truthy b \<and> is_object b \<longrightarrow>
              post_mcp sdk req st = post_without_session sdk req b st)"
    by (simp add: get_mcp_def delete_mcp_def post_mcp_def)
qed

theorem malformed_session_id_rejected_witness:
  "fst (mcp_endpoint stub_sdk 0 (sample_request DELETE (Some ''not-a-uuid'')) empty_state)
     = bad_request ''Bad Request: Invalid session ID format'' (Some (JNum 1))
   \<and> transports (fst (snd (mcp_endpoint stub_sdk 0 (sample_request DELETE (Some ''not-a-uuid''))
                             empty_state))) = []
   \<and> fst (mcp_endpoint stub_sdk 0
            (sample_request DELETE (Some ''00000000-0000-4000-8000-000000000000'')) empty_state)
     \<noteq> fst (mcp_endpoint stub_sdk 0 (sample_request DELETE (Some ''not-a-uuid'')) empty_state)
   \<and> get_mcp stub_sdk (sample_request GET (Some [])) empty_state
     = (bad_request ''Bad Request: No session ID provided'' (Some JNull), empty_state)"
proof -
  let ?bad = "sample_request DELETE (Some ''not-a-uuid'')"
  let ?good = "''00000000-0000-4000-8000-000000000000''"
  let ?e = "createErrorResponse (- 32000) ''Bad Request: Invalid session ID format'' (Some (JNum 1)) None"
  have bad: "\<not> isValidSessionId ''not-a-uuid''" by code_simp
  have good: "isValidSessionId ?good" by code_simp
  have r: "fst (mcp_endpoint stub_sdk 0 ?bad empty_state) = ErrorReply 400 ?e"
    using bad
    by (simp add: mcp_endpoint_def rateLimitMiddleware_def checkRateLimit_def clientIP_def
          or_else_def contentTypeMiddleware_def delete_mcp_def sample_request_def empty_state_def
          opt_body_id_def init_body_def bad_request_def Let_def)
  have c: "code (error ?e) = - 32000"
    by (simp add: createErrorResponse_def)
  have h: "mcp_session_id ?bad = Some ''not-a-uuid''
           \<and> ''not-a-uuid'' \<noteq> [] \<and> \<not> isValidSessionId ''not-a-uuid''"
    using bad by (simp add: sample_request_def)
  have absent: "map_of (transports empty_state) ?good = None"
    by (simp add: empty_state_def)
  have same: "?bad\<lparr>mcp_session_id := Some ?good\<rparr> = sample_request DELETE (Some ?good)"
    by (simp add: sample_request_def)
  note T = malformed_session_id_rejected
             [where req = ?bad and s = "''not-a-uuid''" and sdk = stub_sdk and now = 0
                and st = empty_state, THEN conjunct1, rule_format, OF h]
  from T have 1: "transports (fst (snd (mcp_endpoint stub_sdk 0 ?bad empty_state)))
                    = transports empty_state"
    by blast
  from T r c good absent
  have "fst (mcp_endpoint stub_sdk 0 (?bad\<lparr>mcp_session_id := Some ?good\<rparr>) empty_state)
          \<noteq> fst (mcp_endpoint stub_sdk 0 ?bad empty_state)"
    by blast
  then have 2: "fst (mcp_endpoint stub_sdk 0 (sample_request DELETE (Some ?good)) empty_state)
          \<noteq> fst (mcp_endpoint stub_sdk 0 ?bad empty_state)"
    unfolding same .
  have e: "mcp_session_id (sample_request GET (Some [])) = Some []"
    by (simp add: sample_request_def)
  from malformed_session_id_rejected
         [where req = "sample_request GET (Some [])" and sdk = stub_sdk and st = empty_state,
          THEN conjunct2, rule_format, OF e]
  have 3: "get_mcp stub_sdk (sample_request GET (Some [])) empty_state
     = (bad_request ''Bad Request: No session ID provided'' (Some JNull), empty_state)"
    by blast
  from r 1 2 3 show ?thesis
    by (simp add: bad_request_def empty_state_def)
qed

text \<open>
  C4 (as the specification states it) fails for the empty identifier: \<^verbatim>\<open>""\<close> does not
  pass the format check, but the POST handler tests \<^verbatim>\<open>sessionId &&\<close> first and treats
  it as no identifier at all, so an initialize request carrying it is served and the new
  session is written to the registry.
\<close>

theorem empty_session_id_counterexample:
  "\<not> isValidSessionId []
   \<and> mcp_endpoint stub_sdk 0 (sample_request POST (Some [])) empty_state
     = (TransportReply (),
        \<lparr>transports = [(''00000000-0000-4000-8000-000000000000'',
                        \<lparr>sessionId = Some ''00000000-0000-4000-8000-000000000000''\<rparr>)],
         searchCache = [],
         rateLimits = [(''10.0.0.7'', \<lparr>requests = 1, windowStart = 0\<rparr>)]\<rparr>,
        [])"
proof -
  have e: "\<not> isValidSessionId []" by code_simp
  have u: "randomUUID (replicate 16 0) = ''00000000-0000-4000-8000-000000000000''" by code_simp
  have "mcp_endpoint stub_sdk 0 (sample_request POST (Some [])) empty_state
     = (TransportReply (),
        \<lparr>transports = [(''00000000-0000-4000-8000-000000000000'',
                        \<lparr>sessionId = Some ''00000000-0000-4000-8000-000000000000''\<rparr>)],
         searchCache = [],
         rateLimits = [(''10.0.0.7'', \<lparr>requests = 1, windowStart = 0\<rparr>)]\<rparr>,
        [])"
    by (simp add: mcp_endpoint_def rateLimitMiddleware_def checkRateLimit_def clientIP_def
          or_else_def contentTypeMiddleware_def post_mcp_def post_without_session_def
          handle_with_def run_handleRequest_def onsessioninitialized_def stub_sdk_def
          sample_request_def empty_state_def init_body_def Let_def u)
  with e show ?thesis by simp
qed

section \<open>Session termination\<close>

lemma fst_run_handleRequest:
  "fst (run_handleRequest sdk tr req ts) = result (handleRequest sdk tr req)"
  by (simp add: run_handleRequest_def Let_def)

lemma terminationCleanup_absent:
  "map_of (transports (terminationCleanup sid st)) sid = None"
  by (simp add: terminationCleanup_def delete_conv)

lemma delete_mcp_known:
  assumes "mcp_session_id req = Some sid" "isValidSessionId sid"
    "map_of (transports st) sid = Some tr" "result (handleRequest sdk tr req) = Sent r"
  shows "delete_mcp sdk req st =
           (TransportReply r,
            st\<lparr>transports := snd (run_handleRequest sdk tr req (transports st))\<rparr>, [sid])"
proof -
  from assms(2) have ne: "sid \<noteq> []" by (rule valid_nonempty)
  obtain res ts where rh: "run_handleRequest sdk tr req (transports st) = (res, ts)"
    by (cases "run_handleRequest sdk tr req (transports st)")
  with fst_run_handleRequest [of sdk tr req "transports st"] assms(4) have "res = Sent r" by simp
  with rh assms ne show ?thesis
    by (simp add: delete_mcp_def or_else_def)
qed

lemma run_handleRequest_closed:
  "closed (handleRequest sdk tr req) \<Longrightarrow> initialized (handleRequest sdk tr req) = None \<Longrightarrow>
   sessionId tr = Some sid \<Longrightarrow> sid \<noteq> [] \<Longrightarrow>
   map_of (snd (run_handleRequest sdk tr req ts)) sid = None"
  by (simp add: run_handleRequest_def Let_def onclose_def delete_conv)

lemma delete_mcp_twice:
  "mcp_session_id req = Some sid \<and> isValidSessionId sid \<longrightarrow>
     (map_of (transports st) sid = None \<longrightarrow>
        delete_mcp sdk req st =
          (bad_request ''Bad Request: Session not found or already terminated''
             (opt_body_id (body req)), st, []))
     \<and> (\<forall>tr r. map_of (transports st) sid = Some tr \<and> result (handleRequest sdk tr req) = Sent r \<longrightarrow>
          (let first = delete_mcp sdk req st;
               st1 = fst (snd first);
               st2 = terminationCleanup sid st1
           in fst first = TransportReply r
              \<and> snd (snd first) = [sid]
              \<and> map_of (transports st2) sid = None
              \<and> delete_mcp sdk req st2 =
                  (bad_request ''Bad Request: Session not found or already terminated''
                     (opt_body_id (body req)), st2, [])
              \<and> (closed (handleRequest sdk tr req) \<and> initialized (handleRequest sdk tr req) = None
                   \<and> sessionId tr = Some sid
                 \<longrightarrow> map_of (transports st1) sid = None
                   \<and> delete_mcp sdk req st1 =
                       (bad_request ''Bad Request: Session not found or already terminated''
                          (opt_body_id (body req)), st1, []))))"
proof (intro impI conjI allI)
  assume h: "mcp_session_id req = Some sid \<and> isValidSessionId sid"
  have absent: "delete_mcp sdk req st' =
          (bad_request ''Bad Request: Session not found or already terminated''
             (opt_body_id (body req)), st', [])"
    if "map_of (transports st') sid = None" for st' :: server_state
    using h that by (simp add: delete_mcp_unknown)
  show "delete_mcp sdk req st =
          (bad_request ''Bad Request: Session not found or already terminated''
             (opt_body_id (body req)), st, [])" if "map_of (transports st) sid = None"
    using that by (rule absent)
  fix tr r
  assume k: "map_of (transports st) sid = Some tr \<and> result (handleRequest sdk tr req) = Sent r"
  note d = delete_mcp_known [OF conjunct1 [OF h] conjunct2 [OF h] conjunct1 [OF k] conjunct2 [OF k]]
  let ?st1 = "fst (snd (delete_mcp sdk req st))"
  let ?st2 = "terminationCleanup sid ?st1"
  have gone2: "map_of (transports ?st2) sid = None"
    by (rule terminationCleanup_absent)
  have gone1: "map_of (transports ?st1) sid = None"
    if "closed (handleRequest sdk tr req) \<and> initialized (handleRequest sdk tr req) = None
               \<and> sessionId tr = Some sid"
    using that valid_nonempty [OF conjunct2 [OF h]]
    by (simp add: d run_handleRequest_closed)
  show "let first = delete_mcp sdk req st;
               st1 = fst (snd first);
               st2 = terminationCleanup sid st1
           in fst first = TransportReply r
              \<and> snd (snd first) = [sid]
              \<and> map_of (transports st2) sid = None
              \<and> delete_mcp sdk req st2 =
                  (bad_request ''Bad Request: Session not found or already terminated''
                     (opt_body_id (body req)), st2, [])
              \<and> (closed (handleRequest sdk tr req) \<and> initialized (handleRequest sdk tr req) = None
                   \<and> sessionId tr = Some sid
                 \<longrightarrow> map_of (transports st1) sid = None
                   \<and> delete_mcp sdk req st1 =
                       (bad_request ''Bad Request: Session not found or already terminated''
                          (opt_body_id (body req)), st1, []))"
    unfolding Let_def
  proof (intro conjI impI)
    show "fst (delete_mcp sdk req st) = TransportReply r" by (simp add: d)
    show "snd (snd (delete_mcp sdk req st)) = [sid]" by (simp add: d)
    show "map_of (transports ?st2) sid = None" by (rule gone2)
    show "delete_mcp sdk req ?st2 =
                  (bad_request ''Bad Request: Session not found or already terminated''
                     (opt_body_id (body req)), ?st2, [])"
      by (rule absent [OF gone2])
    assume c: "closed (handleRequest sdk tr req) \<and> initialized (handleRequest sdk tr req) = None
                   \<and> sessionId tr = Some sid"
    show "map_of (transports ?st1) sid = None" by (rule gone1 [OF c])
    show "delete_mcp sdk req ?st1 =
                       (bad_request ''Bad Request: Session not found or already terminated''
                          (opt_body_id (body req)), ?st1, [])"
      by (rule absent [OF gone1 [OF c]])
  qed
qed

text \<open>
  C5. A DELETE whose \<^verbatim>\<open>mcp-session-id\<close> header is missing or names nothing in the
  registry is rejected with a 400 envelope of code -32000, never a 500, and the whole
  server state is unchanged. For a well-formed session id \<open>sid\<close>: when \<open>sid\<close> is absent
  from the registry, that envelope is the not-found rejection. When \<open>sid\<close> is in the
  registry and the SDK transport answers the request, the first DELETE relays that
  answer and schedules the cleanup of \<open>sid\<close>; once the cleanup has run the entry is gone
  and a second DELETE of \<open>sid\<close> gets the not-found rejection. When the SDK closes the
  transport while it handles the DELETE, the \<^verbatim>\<open>onclose\<close> callback has removed the entry
  already, and the second DELETE gets the not-found rejection even before the cleanup
  runs.
\<close>

theorem terminate_idempotent:
  "((case mcp_session_id req of None \<Rightarrow> True | Some s \<Rightarrow> map_of (transports st) s = None) \<longrightarrow>
      (\<exists>e. fst (delete_mcp sdk req st) = ErrorReply 400 e \<and> code (error e) = - 32000)
      \<and> snd (delete_mcp sdk req st) = (st, []))
   \<and> (mcp_session_id req = Some sid \<and> isValidSessionId sid \<longrightarrow>
     (map_of (transports st) sid = None \<longrightarrow>
        delete_mcp sdk req st =
          (bad_request ''Bad Request: Session not found or already terminated''
             (opt_body_id (body req)), st, []))
     \<and> (\<forall>tr r. map_of (transports st) sid = Some tr \<and> result (handleRequest sdk tr req) = Sent r \<longrightarrow>
          (let first = delete_mcp sdk req st;
               st1 = fst (snd first);
               st2 = terminationCleanup sid st1
           in fst first = TransportReply r
              \<and> snd (snd first) = [sid]
              \<and> map_of (transports st2) sid = None
              \<and> delete_mcp sdk req st2 =
                  (bad_request ''Bad Request: Session not found or already terminated''
                     (opt_body_id (body req)), st2, [])
              \<and> (closed (handleRequest sdk tr req) \<and> initialized (handleRequest sdk tr req) = None
                   \<and> sessionId tr = Some sid
                 \<longrightarrow> map_of (transports st1) sid = None
                   \<and> delete_mcp sdk req st1 =
                       (bad_request ''Bad Request: Session not found or already terminated''
                          (opt_body_id (body req)), st1, [])))))"
proof
  show "(case mcp_session_id req of None \<Rightarrow> True | Some s \<Rightarrow> map_of (transports st) s = None) \<longrightarrow>
      (\<exists>e. fst (delete_mcp sdk req st) = ErrorReply 400 e \<and> code (error e) = - 32000)
      \<and> snd (delete_mcp sdk req st) = (st, [])"
    by (auto simp add: delete_mcp_def or_else_def bad_request_def createErrorResponse_def
        split: option.splits)
  show "mcp_session_id req = Some sid \<and> isValidSessionId sid \<longrightarrow>
     (map_of (transports st) sid = None \<longrightarrow>
        delete_mcp sdk req st =
          (bad_request ''Bad Request: Session not found or already terminated''
             (opt_body_id (body req)), st, []))
     \<and> (\<forall>tr r. map_of (transports st) sid = Some tr \<and> result (handleRequest sdk tr req) = Sent r \<longrightarrow>
          (let first = delete_mcp sdk req st;
               st1 = fst (snd first);
               st2 = terminationCleanup sid st1
           in fst first = TransportReply r
              \<and> snd (snd first) = [sid]
              \<and> map_of (transports st2) sid = None
              \<and> delete_mcp sdk req st2 =
                  (bad_request ''Bad Request: Session not found or already terminated''
                     (opt_body_id (body req)), st2, [])
              \<and> (closed (handleRequest sdk tr req) \<and> initialized (handleRequest sdk tr req) = None
                   \<and> sessionId tr = Some sid
                 \<longrightarrow> map_of (transports st1) sid = None
                   \<and> delete_mcp sdk req st1 =
                       (bad_request ''Bad Request: Session not found or already terminated''
                          (opt_body_id (body req)), st1, []))))"
    by (rule delete_mcp_twice)
qed

theorem terminate_idempotent_witness:
  "(let req = sample_request DELETE (Some ''00000000-0000-4000-8000-000000000000'');
        st = empty_state\<lparr>transports := [(''00000000-0000-4000-8000-000000000000'',
                              \<lparr>sessionId = Some ''00000000-0000-4000-8000-000000000000''\<rparr>)]\<rparr>;
        first = delete_mcp stub_sdk req st;
        second = delete_mcp stub_sdk req (fst (snd first))
    in fst first = TransportReply ()
       \<and> snd (snd first) = [''00000000-0000-4000-8000-000000000000'']
       \<and> map_of (transports (fst (snd first))) ''00000000-0000-4000-8000-000000000000'' = None
       \<and> second = (bad_request ''Bad Request: Session not found or already terminated''
                     (Some (JNum 1)), fst (snd first), []))"
proof -
  let ?sid = "''00000000-0000-4000-8000-000000000000''"
  let ?req = "sample_request DELETE (Some ?sid)"
  let ?tr = "\<lparr>sessionId = Some ?sid\<rparr>"
  let ?st = "empty_state\<lparr>transports := [(?sid, ?tr)]\<rparr>"
  have good: "isValidSessionId ?sid" by code_simp
  have h: "mcp_session_id ?req = Some ?sid \<and> isValidSessionId ?sid"
    using good by (simp add: sample_request_def)
  have k: "map_of (transports ?st) ?sid = Some ?tr
           \<and> result (handleRequest stub_sdk ?tr ?req) = Sent ()"
    by (simp add: stub_sdk_def)
  have c: "closed (handleRequest stub_sdk ?tr ?req)
           \<and> initialized (handleRequest stub_sdk ?tr ?req) = None
           \<and> sessionId ?tr = Some ?sid"
    by (simp add: stub_sdk_def sample_request_def)
  have i: "opt_body_id (body ?req) = Some (JNum 1)"
    by (simp add: sample_request_def opt_body_id_def init_body_def)
  note T = terminate_idempotent [where req = ?req and sid = ?sid and st = ?st and sdk = stub_sdk,
             THEN conjunct2, rule_format, OF h, THEN conjunct2, rule_format, OF k,
             unfolded Let_def]
  from T c
  have "fst (delete_mcp stub_sdk ?req ?st) = TransportReply ()
      \<and> snd (snd (delete_mcp stub_sdk ?req ?st)) = [?sid]
      \<and> map_of (transports (fst (snd (delete_mcp stub_sdk ?req ?st)))) ?sid = None
      \<and> delete_mcp stub_sdk ?req (fst (snd (delete_mcp stub_sdk ?req ?st))) =
           (bad_request ''Bad Request: Session not found or already terminated''
              (opt_body_id (body ?req)), fst (snd (delete_mcp stub_sdk ?req ?st)), [])"
    by blast
  then show ?thesis
    unfolding Let_def i by simp
qed

section \<open>The format of session identifiers\<close>

lemma matches_nth:
  "matches ps s = (length s = length ps \<and> (\<forall>i<length ps. (ps ! i) (s ! i)))"
  by (induction ps s rule: matches.induct) (auto simp add: less_Suc_eq_0_disj)

lemma session_id_pattern_nth:
  "session_id_pattern =
     map (\<lambda>i. if i \<in> {8, 13, 18, 23} then hyphen else lower_hex) [0..<36]"
  by (simp add: session_id_pattern_def numeral_eq_Suc upt_rec)

lemma lower_hex_set: "lower_hex c = (c \<in> set ''0123456789abcdef'')"
  unfolding lower_hex_def by auto

lemma pattern_at:
  "(if i \<in> {8, 13, 18, 23::nat} then hyphen else lower_hex) c =
   (if i \<in> {8, 13, 18, 23} then c = CHR ''-'' else c \<in> set ''0123456789abcdef'')"
  by (cases "i \<in> {8, 13, 18, 23::nat}") (simp_all only: if_True if_False hyphen_def lower_hex_set)

lemma isValidSessionId_nth:
  "isValidSessionId s =
     (length s = 36 \<and>
      (\<forall>i<36. (if i \<in> {8, 13, 18, 23::nat} then hyphen else lower_hex) (s ! i)))"
proof -
  have "(\<forall>i<36. (map (\<lambda>i. if i \<in> {8, 13, 18, 23::nat} then hyphen else lower_hex) [0..<36] ! i) (s ! i))
      = (\<forall>i<36. (if i \<in> {8, 13, 18, 23::nat} then hyphen else lower_hex) (s ! i))"
    by (intro all_cong) (simp only: nth_map length_upt nth_upt minus_nat.diff_0 add_0)
  then show ?thesis
    unfolding isValidSessionId_def matches_nth session_id_pattern_nth
    by (simp only: length_map length_upt minus_nat.diff_0)
qed

lemma isValidSessionId_shape: "isValidSessionId s = uuid_shape s"
  unfolding isValidSessionId_nth uuid_shape_def
  by (simp only: pattern_at atLeast0LessThan lessThan_iff Ball_def)

lemma matches_append:
  "length xs = length ps \<Longrightarrow> matches (ps @ qs) (xs @ ys) = (matches ps xs \<and> matches qs ys)"
proof (induction ps arbitrary: xs)
  case Nil
  then show ?case by simp
next
  case (Cons P ps)
  then obtain c cs where "xs = c # cs" by (cases xs) auto
  with Cons show ?case by simp
qed

lemma matches_replicate:
  "matches (replicate n P) xs = (length xs = n \<and> (\<forall>c \<in> set xs. P c))"
proof (induction n arbitrary: xs)
  case 0
  then show ?case by auto
next
  case (Suc n)
  show ?case
  proof (cases xs)
    case Nil
    then show ?thesis by simp
  next
    case (Cons c cs)
    with Suc show ?thesis by auto
  qed
qed

lemma hex_digit_lower: "n < 16 \<Longrightarrow> lower_hex (hex_digit n)"
proof -
  have "\<forall>n \<in> set [0..<16]. lower_hex (hex_digit n)"
    by code_simp
  then show "n < 16 \<Longrightarrow> lower_hex (hex_digit n)"
    by simp
qed

lemma hex_byte_lower: "c \<in> set (hex_byte b) \<Longrightarrow> lower_hex c"
proof -
  have "unat b < 2 ^ LENGTH(8)" by (rule unsigned_less)
  then have "unat b < 256" by simp
  then have "unat b div 16 < 16" "unat b mod 16 < 16" by simp_all
  then show "c \<in> set (hex_byte b) \<Longrightarrow> lower_hex c"
    by (auto simp add: hex_byte_def hex_digit_lower)
qed

lemma length_hex_bytes: "length (concat (map hex_byte bs)) = 2 * length bs"
  by (induction bs) (simp_all add: hex_byte_def)

lemma hex_bytes_lower: "c \<in> set (concat (map hex_byte bs)) \<Longrightarrow> lower_hex c"
  by (auto dest: hex_byte_lower)

lemma randomUUID_valid:
  assumes "length bytes = 16"
  shows "isValidSessionId (randomUUID bytes)"
proof -
  define b where "b = bytes[6 := (bytes ! 6 AND 0x0f) OR 0x40, 8 := (bytes ! 8 AND 0x3f) OR 0x80]"
  define h where "h = concat (map hex_byte b)"
  have lb: "length b = 16" using assms by (simp add: b_def)
  have lh: "length h = 32" by (simp add: h_def length_hex_bytes lb)
  have hx: "lower_hex c" if "c \<in> set h" for c
    using that unfolding h_def by (rule hex_bytes_lower)
  have sub: "lower_hex c" if "c \<in> set (take n (drop m h))" for c n m
    using that hx by (meson in_set_dropD in_set_takeD)
  have sub0: "lower_hex c" if "c \<in> set (take n h)" for c n
    using that hx by (meson in_set_takeD)
  have subd: "lower_hex c" if "c \<in> set (drop m h)" for c m
    using that hx by (meson in_set_dropD)
  have g1: "matches (replicate 8 lower_hex) (take 8 h)"
    using lh sub0 by (simp add: matches_replicate)
  have g2: "matches (replicate 4 lower_hex) (take 4 (drop 8 h))"
    using lh sub by (simp add: matches_replicate)
  have g3: "matches (replicate 4 lower_hex) (take 4 (drop 12 h))"
    using lh sub by (simp add: matches_replicate)
  have g4: "matches (replicate 4 lower_hex) (take 4 (drop 16 h))"
    using lh sub by (simp add: matches_replicate)
  have g5: "matches (replicate 12 lower_hex) (drop 20 h)"
    using lh subd by (simp add: matches_replicate)
  have hy: "matches [hyphen] ''-''" by (simp add: hyphen_def)
  have r: "randomUUID bytes =
      take 8 h @ ''-'' @ take 4 (drop 8 h) @ ''-'' @ take 4 (drop 12 h) @ ''-'' @
         take 4 (drop 16 h) @ ''-'' @ drop 20 h"
    by (simp add: randomUUID_def Let_def b_def h_def)
  show ?thesis
    unfolding isValidSessionId_def session_id_pattern_def r
    using g1 g2 g3 g4 g5 hy lh
    by (simp only: matches_append length_take length_drop length_replicate list.size
          min.absorb2 simp_thms)
qed

lemma valid_chars: "isValidSessionId s \<Longrightarrow> c \<in> set s \<Longrightarrow> lower_hex c \<or> hyphen c"
proof -
  assume v: "isValidSessionId s" and c: "c \<in> set s"
  from c obtain i where i: "i < length s" "s ! i = c" by (auto simp add: in_set_conv_nth)
  from v i show ?thesis
    unfolding isValidSessionId_nth by (auto split: if_splits)
qed

lemma uppercase_invalid: "\<exists>c \<in> set s. c \<in> set ''ABCDEF'' \<Longrightarrow> \<not> isValidSessionId s"
  by (auto dest!: valid_chars simp add: lower_hex_def hyphen_def)

text \<open>
  C10. \<^verbatim>\<open>isValidSessionId\<close> accepts exactly the strings of the 8-4-4-4-12 shape over
  lowercase hexadecimal digits. Every identifier the session id generator
  \<^verbatim>\<open>() => randomUUID()\<close> produces, whatever sixteen random bytes it draws, passes the
  check. A string containing one of the uppercase letters A to F fails it, and a
  request carrying such a string as its \<^verbatim>\<open>mcp-session-id\<close> is answered with the
  invalid-format rejection by the GET handler, by the DELETE handler and, once its body
  is a JSON object, by the POST handler, the server state unchanged.
\<close>

theorem session_id_format:
  "isValidSessionId s = uuid_shape s
   \<and> (length bytes = 16 \<longrightarrow> isValidSessionId (randomUUID bytes))
   \<and> ((\<exists>c \<in> set u. c \<in> set ''ABCDEF'') \<and> mcp_session_id req = Some u \<longrightarrow>
        \<not> isValidSessionId u
        \<and> get_mcp sdk req st =
            (bad_request ''Bad Request: Invalid session ID format'' (Some JNull), st)
        \<and> delete_mcp sdk req st =
            (bad_request ''Bad Request: Invalid session ID format'' (opt_body_id (body req)), st, [])
        \<and> (\<forall>b. body req = Some b \<and> truthy b \<and> is_object b \<longrightarrow>
              post_mcp sdk req st = (bad_request ''Invalid session ID format'' (body_id b), st)))"
proof (intro conjI impI)
  show "isValidSessionId s = uuid_shape s" by (rule isValidSessionId_shape)
  show "isValidSessionId (randomUUID bytes)" if "length bytes = 16"
    using that by (rule randomUUID_valid)
  assume h: "(\<exists>c \<in> set u. c \<in> set ''ABCDEF'') \<and> mcp_session_id req = Some u"
  then have inv: "\<not> isValidSessionId u" by (simp only: uppercase_invalid not_False_eq_True)
  from h have ne: "u \<noteq> []" by auto
  from h have hd: "mcp_session_id req = Some u" by simp
  show "\<not> isValidSessionId u" by (rule inv)
  show "get_mcp sdk req st =
            (bad_request ''Bad Request: Invalid session ID format'' (Some JNull), st)"
    by (rule get_mcp_malformed [OF hd ne inv])
  show "delete_mcp sdk req st =
            (bad_request ''Bad Request: Invalid session ID format'' (opt_body_id (body req)), st, [])"
    by (rule delete_mcp_malformed [OF hd ne inv])
  show "\<forall>b. body req = Some b \<and> truthy b \<and> is_object b \<longrightarrow>
              post_mcp sdk req st = (bad_request ''Invalid session ID format'' (body_id b), st)"
    by (simp add: post_mcp_malformed [OF hd ne inv])
qed

theorem session_id_format_witness:
  "isValidSessionId (randomUUID (replicate 16 255))
   \<and> randomUUID (replicate 16 255) = ''ffffffff-ffff-4fff-bfff-ffffffffffff''
   \<and> \<not> isValidSessionId ''FFFFFFFF-FFFF-4FFF-BFFF-FFFFFFFFFFFF''
   \<and> post_mcp stub_sdk (sample_request POST (Some ''FFFFFFFF-FFFF-4FFF-BFFF-FFFFFFFFFFFF''))
       empty_state
     = (bad_request ''Invalid session ID format'' (Some (JNum 1)), empty_state)
   \<and> get_mcp stub_sdk (sample_request GET (Some ''FFFFFFFF-FFFF-4FFF-BFFF-FFFFFFFFFFFF''))
       empty_state
     = (bad_request ''Bad Request: Invalid session ID format'' (Some JNull), empty_state)
   \<and> delete_mcp stub_sdk (sample_request DELETE (Some ''FFFFFFFF-FFFF-4FFF-BFFF-FFFFFFFFFFFF''))
       empty_state
     = (bad_request ''Bad Request: Invalid session ID format'' (Some (JNum 1)), empty_state, [])"
proof -
  let ?u = "''FFFFFFFF-FFFF-4FFF-BFFF-FFFFFFFFFFFF''"
  have up: "\<exists>c \<in> set ?u. c \<in> set ''ABCDEF''" by simp
  have b: "body (sample_request m (Some ?u)) = Some init_body \<and> truthy init_body
           \<and> is_object init_body
           \<and> mcp_session_id (sample_request m (Some ?u)) = Some ?u
           \<and> body_id init_body = Some (JNum 1)
           \<and> opt_body_id (body (sample_request m (Some ?u))) = Some (JNum 1)" for m
    by (simp add: sample_request_def init_body_def opt_body_id_def)
  have u: "randomUUID (replicate 16 255) = ''ffffffff-ffff-4fff-bfff-ffffffffffff''"
    by code_simp
  have l: "length (replicate 16 (255 :: 8 word)) = 16" by simp
  have hp: "(\<exists>c \<in> set ?u. c \<in> set ''ABCDEF'')
            \<and> mcp_session_id (sample_request m (Some ?u)) = Some ?u" for m
    using up b by blast
  note P = session_id_format [of "[]" "replicate 16 255" ?u "sample_request POST (Some ?u)"
             stub_sdk empty_state]
  note G = session_id_format [of "[]" "replicate 16 255" ?u "sample_request GET (Some ?u)"
             stub_sdk empty_state]
  note D = session_id_format [of "[]" "replicate 16 255" ?u "sample_request DELETE (Some ?u)"
             stub_sdk empty_state]
  from P l have 1: "isValidSessionId (randomUUID (replicate 16 255))" by blast
  from P hp have 2: "\<not> isValidSessionId ?u" by blast
  from P hp b [of POST]
  have 3: "post_mcp stub_sdk (sample_request POST (Some ?u)) empty_state
     = (bad_request ''Invalid session ID format'' (Some (JNum 1)), empty_state)"
    by metis
  from G hp
  have 4: "get_mcp stub_sdk (sample_request GET (Some ?u)) empty_state
     = (bad_request ''Bad Request: Invalid session ID format'' (Some JNull), empty_state)"
    by blast
  from D hp b [of DELETE]
  have 5: "delete_mcp stub_sdk (sample_request DELETE (Some ?u)) empty_state
     = (bad_request ''Bad Request: Invalid session ID format'' (Some (JNum 1)), empty_state, [])"
    by metis
  from 1 u 2 3 4 5 show ?thesis by blast
qed

section \<open>The periodic cleanup\<close>

lemma map_of_fold_delete_keys:
  "map_of (fold (\<lambda>k c. case map_of c k of
                          None \<Rightarrow> c
                        | Some e \<Rightarrow> if P e then AList.delete k c else c) ks c) k =
     (if k \<in> set ks
      then (case map_of c k of None \<Rightarrow> None | Some e \<Rightarrow> if P e then None else Some e)
      else map_of c k)"
proof (induction ks arbitrary: c)
  case Nil
  then show ?case by simp
next
  case (Cons a ks)
  let ?f = "\<lambda>k c. case map_of c k of None \<Rightarrow> c | Some e \<Rightarrow> if P e then AList.delete k c else c"
  let ?keep = "\<lambda>x. case x of None \<Rightarrow> None | Some e \<Rightarrow> if P e then None else Some e"
  have step: "map_of (?f a c) k = (if k = a then ?keep (map_of c k) else map_of c k)"
    by (simp add: delete_conv split: option.splits)
  have "map_of (fold ?f (a # ks) c) k = map_of (fold ?f ks (?f a c)) k"
    by simp
  also have "\<dots> = (if k \<in> set ks then ?keep (map_of (?f a c) k) else map_of (?f a c) k)"
    by (rule Cons.IH)
  also have "\<dots> = (if k \<in> set (a # ks) then ?keep (map_of c k) else map_of c k)"
    unfolding step by (cases "map_of c k") auto
  finally show ?case .
qed

lemma map_of_keys_None: "k \<notin> set (map fst c) \<Longrightarrow> map_of c k = None"
  by (simp add: map_of_eq_None_iff)

lemma map_of_cleanupCache:
  "map_of (cleanupCache now c) k =
     (case map_of c k of
        None \<Rightarrow> None
      | Some e \<Rightarrow> if now > timestamp e + ttl e then None else Some e)"
proof (cases "k \<in> set (map fst c)")
  case True
  then show ?thesis
    unfolding cleanupCache_def
    by (simp only: map_of_fold_delete_keys [where P = "\<lambda>e. now > timestamp e + ttl e"] if_True)
next
  case False
  then have "map_of c k = None" by (rule map_of_keys_None)
  with False show ?thesis
    unfolding cleanupCache_def
    by (simp only: map_of_fold_delete_keys [where P = "\<lambda>e. now > timestamp e + ttl e"] if_False option.case)
qed

lemma map_of_cleanupRateLimits:
  "map_of (cleanupRateLimits now c) k =
     (case map_of c k of
        None \<Rightarrow> None
      | Some e \<Rightarrow> if now - windowStart e \<ge> RATE_LIMIT_WINDOW then None else Some e)"
proof (cases "k \<in> set (map fst c)")
  case True
  then show ?thesis
    unfolding cleanupRateLimits_def
    by (simp only: map_of_fold_delete_keys [where P = "\<lambda>e. now - windowStart e \<ge> RATE_LIMIT_WINDOW"] if_True)
next
  case False
  then have "map_of c k = None" by (rule map_of_keys_None)
  with False show ?thesis
    unfolding cleanupRateLimits_def
    by (simp only: map_of_fold_delete_keys [where P = "\<lambda>e. now - windowStart e \<ge> RATE_LIMIT_WINDOW"] if_False option.case)
qed

lemma map_of_fold_delete_entries:
  "map_of (fold (\<lambda>(k, v) c. if Q k v then AList.delete k c else c) xs c) k =
     (if \<exists>v. (k, v) \<in> set xs \<and> Q k v then None else map_of c k)"
proof (induction xs arbitrary: c)
  case Nil
  then show ?case by simp
next
  case (Cons x xs)
  obtain a v where x: "x = (a, v)" by (cases x)
  show ?case
    by (auto simp add: x Cons.IH delete_conv)
qed

lemma map_of_reapTransports:
  assumes "distinct (map fst ts)"
  shows "map_of (reapTransports ts) sid =
     (case map_of ts sid of
        None \<Rightarrow> None
      | Some tr \<Rightarrow> if defunct sid tr then None else Some tr)"
proof -
  have "(\<exists>v. (sid, v) \<in> set ts \<and> defunct sid v) =
        (case map_of ts sid of None \<Rightarrow> False | Some tr \<Rightarrow> defunct sid tr)"
  proof (cases "map_of ts sid")
    case None
    then have "\<And>v. (sid, v) \<notin> set ts"
      by (metis map_of_eq_None_iff fst_conv image_eqI)
    with None show ?thesis by simp
  next
    case (Some tr)
    then have "(sid, v) \<in> set ts \<longleftrightarrow> v = tr" for v
      using assms by (metis map_of_SomeD map_of_is_SomeI option.inject)
    with Some show ?thesis by simp
  qed
  then show ?thesis
    unfolding reapTransports_def
    by (simp add: map_of_fold_delete_entries [where Q = defunct] split: option.splits)
qed

text \<open>
  C6 (as the code has it). A pass of the periodic cleanup at \<open>now\<close> (1) removes from the
  cache exactly the entries with \<open>now > timestamp + ttl\<close>, (2) removes exactly the rate
  windows with \<open>now - windowStart \<ge> W\<close>, and (3) removes from the registry exactly the
  sessions whose transport has no session id or a session id other than its key. The
  registry after the pass does not depend on the clock: no idle time is measured.
\<close>

theorem reaper_pass:
  "(\<forall>k. map_of (searchCache (reaper now st)) k =
          (case map_of (searchCache st) k of
             None \<Rightarrow> None
           | Some e \<Rightarrow> if now > timestamp e + ttl e then None else Some e))
   \<and> (\<forall>a. map_of (rateLimits (reaper now st)) a =
          (case map_of (rateLimits st) a of
             None \<Rightarrow> None
           | Some e \<Rightarrow> if now - windowStart e \<ge> RATE_LIMIT_WINDOW then None else Some e))
   \<and> (distinct (map fst (transports st)) \<longrightarrow>
        (\<forall>sid. map_of (transports (reaper now st)) sid =
          (case map_of (transports st) sid of
             None \<Rightarrow> None
           | Some tr \<Rightarrow> if \<not> present (sessionId tr) \<or> sessionId tr \<noteq> Some sid then None
                        else Some tr)))
   \<and> (\<forall>now'. transports (reaper now' st) = transports (reaper now st))"
  by (simp add: reaper_def map_of_cleanupCache map_of_cleanupRateLimits map_of_reapTransports
        defunct_def cong: option.case_cong)

theorem reaper_pass_witness:
  "(let st = \<lparr>transports = [(''00000000-0000-4000-8000-000000000000'',
                             \<lparr>sessionId = Some ''00000000-0000-4000-8000-000000000000''\<rparr>),
                            (''11111111-1111-4111-8111-111111111111'', \<lparr>sessionId = None\<rparr>)],
               searchCache = [(''search_cats'', \<lparr>data = TextContent ''cats'', timestamp = 0, ttl = 300000\<rparr>),
                             (''search_dogs'', \<lparr>data = TextContent ''dogs'', timestamp = 1, ttl = 300000\<rparr>)],
               rateLimits = [(''10.0.0.7'', \<lparr>requests = 3, windowStart = 240000\<rparr>),
                            (''10.0.0.8'', \<lparr>requests = 100, windowStart = 240002\<rparr>)]\<rparr>;
        st' = reaper 300001 st
    in map_of (searchCache st') ''search_cats'' = None
       \<and> map_of (searchCache st') ''search_dogs''
           = Some \<lparr>data = TextContent ''dogs'', timestamp = 1, ttl = 300000\<rparr>
       \<and> map_of (rateLimits st') ''10.0.0.7'' = None
       \<and> map_of (rateLimits st') ''10.0.0.8'' = Some \<lparr>requests = 100, windowStart = 240002\<rparr>
       \<and> map_of (transports st') ''11111111-1111-4111-8111-111111111111'' = None
       \<and> map_of (transports st') ''00000000-0000-4000-8000-000000000000''
           = Some \<lparr>sessionId = Some ''00000000-0000-4000-8000-000000000000''\<rparr>)"
proof -
  let ?st = "\<lparr>transports = [(''00000000-0000-4000-8000-000000000000'',
                             \<lparr>sessionId = Some ''00000000-0000-4000-8000-000000000000''\<rparr>),
                            (''11111111-1111-4111-8111-111111111111'', \<lparr>sessionId = None\<rparr>)],
               searchCache = [(''search_cats'', \<lparr>data = TextContent ''cats'', timestamp = 0, ttl = 300000\<rparr>),
                             (''search_dogs'', \<lparr>data = TextContent ''dogs'', timestamp = 1, ttl = 300000\<rparr>)],
               rateLimits = [(''10.0.0.7'', \<lparr>requests = 3, windowStart = 240000\<rparr>),
                            (''10.0.0.8'', \<lparr>requests = 100, windowStart = 240002\<rparr>)]\<rparr>"
  note R = reaper_pass [of 300001 ?st]
  note cache = R [THEN conjunct1, rule_format]
  note limits = R [THEN conjunct2, THEN conjunct1, rule_format]
  have d: "distinct (map fst (transports ?st))" by simp
  note sessions = R [THEN conjunct2, THEN conjunct2, THEN conjunct1, rule_format, OF d]
  show ?thesis
    unfolding Let_def
    by (simp add: cache limits sessions RATE_LIMIT_WINDOW_def)
qed

text \<open>
  C6 (as the specification states it) fails in its third part: there is no idle
  threshold. A session created at time 0 and never used again is still in the registry
  after a pass more than thirty years later, and after a pass at any later time.
\<close>

theorem reaper_idle_counterexample:
  "fst (snd (mcp_endpoint stub_sdk 0 (sample_request POST None) empty_state))
     = \<lparr>transports = [(''00000000-0000-4000-8000-000000000000'',
                        \<lparr>sessionId = Some ''00000000-0000-4000-8000-000000000000''\<rparr>)],
        searchCache = [],
        rateLimits = [(''10.0.0.7'', \<lparr>requests = 1, windowStart = 0\<rparr>)]\<rparr>
   \<and> map_of (transports (reaper 1000000000000
                (fst (snd (mcp_endpoint stub_sdk 0 (sample_request POST None) empty_state)))))
         ''00000000-0000-4000-8000-000000000000''
       = Some \<lparr>sessionId = Some ''00000000-0000-4000-8000-000000000000''\<rparr>
   \<and> \<not> (\<exists>threshold. \<forall>now > threshold.
           map_of (transports (reaper now
                (fst (snd (mcp_endpoint stub_sdk 0 (sample_request POST None) empty_state)))))
             ''00000000-0000-4000-8000-000000000000'' = None)"
proof -
  have u: "randomUUID (replicate 16 0) = ''00000000-0000-4000-8000-000000000000''" by code_simp
  have st: "fst (snd (mcp_endpoint stub_sdk 0 (sample_request POST None) empty_state))
     = \<lparr>transports = [(''00000000-0000-4000-8000-000000000000'',
                        \<lparr>sessionId = Some ''00000000-0000-4000-8000-000000000000''\<rparr>)],
        searchCache = [],
        rateLimits = [(''10.0.0.7'', \<lparr>requests = 1, windowStart = 0\<rparr>)]\<rparr>"
    by (simp add: mcp_endpoint_def rateLimitMiddleware_def checkRateLimit_def clientIP_def
          or_else_def contentTypeMiddleware_def post_mcp_def post_without_session_def
          handle_with_def run_handleRequest_def onsessioninitialized_def stub_sdk_def
          sample_request_def empty_state_def init_body_def Let_def u)
  have keep: "map_of (transports (reaper now
                (fst (snd (mcp_endpoint stub_sdk 0 (sample_request POST None) empty_state)))))
         ''00000000-0000-4000-8000-000000000000''
       = Some \<lparr>sessionId = Some ''00000000-0000-4000-8000-000000000000''\<rparr>" for now
    unfolding st by (simp add: reaper_def reapTransports_def defunct_def)
  have "\<not> (\<exists>threshold. \<forall>now > threshold.
           map_of (transports (reaper now
                (fst (snd (mcp_endpoint stub_sdk 0 (sample_request POST None) empty_state)))))
             ''00000000-0000-4000-8000-000000000000'' = None)"
    unfolding keep by (simp add: gt_ex)
  with st keep [of 1000000000000] show ?thesis by blast
qed

section \<open>The health endpoint\<close>

lemma checkRateLimit_admitted_changes:
  "fst (checkRateLimit now a rl) \<Longrightarrow> map_of (snd (checkRateLimit now a rl)) a \<noteq> map_of rl a"
proof (cases "map_of rl a")
  case None
  then show "map_of (snd (checkRateLimit now a rl)) a \<noteq> map_of rl a"
    by (simp add: checkRateLimit_def update_conv)
next
  case (Some e)
  assume "fst (checkRateLimit now a rl)"
  with Some show "map_of (snd (checkRateLimit now a rl)) a \<noteq> map_of rl a"
    by (cases e) (auto simp add: checkRateLimit_def update_conv RATE_LIMIT_WINDOW_def
        split: if_splits)
qed

text \<open>
  C7 (as the code has it). Serving a GET of \<^verbatim>\<open>/health\<close> leaves the session registry and
  the result cache unchanged, and the handler itself changes nothing; but the request
  first passes the rate limiting middleware, so the rate windows after the request are
  those \<^verbatim>\<open>checkRateLimit\<close> leaves for the client's address. When the limiter admits
  the request, the reply reports status, time, the number of sessions, the number of
  cache entries, the uptime and the heap figures rounded to megabytes, and the client's
  rate window has changed. When the limiter denies it, the reply is the 429 envelope and
  the server state is unchanged.
\<close>

theorem health_request:
  "transports (snd (health_endpoint p now req st :: 'r reply \<times> server_state)) = transports st
   \<and> searchCache (snd (health_endpoint p now req st :: 'r reply \<times> server_state)) = searchCache st
   \<and> rateLimits (snd (health_endpoint p now req st :: 'r reply \<times> server_state))
       = snd (checkRateLimit now (clientIP req) (rateLimits st))
   \<and> (fst (checkRateLimit now (clientIP req) (rateLimits st)) \<longrightarrow>
        fst (health_endpoint p now req st :: 'r reply \<times> server_state) =
          HealthReply \<lparr>status = ''ok'', iso_timestamp = now_iso p,
                       activeSessions = length (transports st),
                       cacheEntries = length (searchCache st),
                       uptime = proc_uptime p,
                       memory_used = round_mb (heapUsed p),
                       memory_total = round_mb (heapTotal p)\<rparr>
        \<and> map_of (rateLimits (snd (health_endpoint p now req st :: 'r reply \<times> server_state)))
              (clientIP req)
            \<noteq> map_of (rateLimits st) (clientIP req))
   \<and> (\<not> fst (checkRateLimit now (clientIP req) (rateLimits st)) \<longrightarrow>
        (\<exists>e. fst (health_endpoint p now req st :: 'r reply \<times> server_state) = ErrorReply 429 e)
        \<and> snd (health_endpoint p now req st :: 'r reply \<times> server_state) = st)"
proof -
  let ?r = "checkRateLimit now (clientIP req) (rateLimits st)"
  show ?thesis
  proof (cases "fst ?r")
    case True
    then have m: "rateLimitMiddleware now req (rateLimits st) = (None :: 'r reply option, snd ?r)"
      by (simp add: rateLimitMiddleware_def Let_def)
    from True show ?thesis
      by (simp add: health_endpoint_def m health_handler_def checkRateLimit_admitted_changes)
  next
    case False
    then have m: "\<exists>e. rateLimitMiddleware now req (rateLimits st)
                     = (Some (ErrorReply 429 e :: 'r reply), rateLimits st)"
      using checkRateLimit_denied [OF False]
      by (simp add: rateLimitMiddleware_def Let_def)
    then obtain e where "rateLimitMiddleware now req (rateLimits st)
                     = (Some (ErrorReply 429 e :: 'r reply), rateLimits st)" ..
    with False checkRateLimit_denied [OF False] show ?thesis
      by (simp add: health_endpoint_def)
  qed
qed

theorem health_request_witness:
  "health_endpoint
     \<lparr>proc_uptime = 12.5, heapUsed = 52953088, heapTotal = 104857600,
      now_iso = ''2025-01-01T00:00:00.000Z''\<rparr>
     1000 (sample_request GET None)
     (empty_state\<lparr>rateLimits := [(''10.0.0.7'', \<lparr>requests = 100, windowStart = 0\<rparr>)]\<rparr>)
   = (ErrorReply 429
        (createErrorResponse (- 32000) ''Too many requests. Please try again later.''
           (Some JNull) (Some (JObj [(''retryAfter'', JNum 60)]))) :: unit reply,
      empty_state\<lparr>rateLimits := [(''10.0.0.7'', \<lparr>requests = 100, windowStart = 0\<rparr>)]\<rparr>)
   \<and> fst (health_endpoint
     \<lparr>proc_uptime = 12.5, heapUsed = 52953088, heapTotal = 104857600,
      now_iso = ''2025-01-01T00:00:00.000Z''\<rparr>
     1000 (sample_request GET None)
     (empty_state\<lparr>rateLimits := [(''10.0.0.7'', \<lparr>requests = 99, windowStart = 0\<rparr>)]\<rparr>))
   = (HealthReply \<lparr>status = ''ok'', iso_timestamp = ''2025-01-01T00:00:00.000Z'',
                    activeSessions = 0, cacheEntries = 0, uptime = 12.5,
                    memory_used = 51, memory_total = 100\<rparr> :: unit reply)"
proof -
  let ?p = "\<lparr>proc_uptime = 12.5, heapUsed = 52953088, heapTotal = 104857600,
      now_iso = ''2025-01-01T00:00:00.000Z''\<rparr>"
  let ?full = "empty_state\<lparr>rateLimits := [(''10.0.0.7'', \<lparr>requests = 100, windowStart = 0\<rparr>)]\<rparr>"
  let ?room = "empty_state\<lparr>rateLimits := [(''10.0.0.7'', \<lparr>requests = 99, windowStart = 0\<rparr>)]\<rparr>"
  have ip: "clientIP (sample_request GET None) = ''10.0.0.7''"
    by (simp add: clientIP_def or_else_def sample_request_def)
  have deny: "\<not> fst (checkRateLimit 1000 (clientIP (sample_request GET None)) (rateLimits ?full))"
    by (simp add: ip checkRateLimit_def empty_state_def RATE_LIMIT_WINDOW_def
          RATE_LIMIT_MAX_REQUESTS_def)
  have admit: "fst (checkRateLimit 1000 (clientIP (sample_request GET None)) (rateLimits ?room))"
    by (simp add: ip checkRateLimit_def empty_state_def RATE_LIMIT_WINDOW_def
          RATE_LIMIT_MAX_REQUESTS_def)
  have r: "fst (health_endpoint ?p 1000 (sample_request GET None) ?full) =
           (ErrorReply 429
             (createErrorResponse (- 32000) ''Too many requests. Please try again later.''
                (Some JNull) (Some (JObj [(''retryAfter'', JNum 60)]))) :: unit reply)"
    using deny
    by (simp add: health_endpoint_def rateLimitMiddleware_def Let_def ceil_div_def
          RATE_LIMIT_WINDOW_def)
  from health_request [of ?p 1000 "sample_request GET None" ?full, where 'r = unit] deny
  have "snd (health_endpoint ?p 1000 (sample_request GET None) ?full :: unit reply \<times> server_state)
          = ?full"
    by blast
  with r have 1: "health_endpoint ?p 1000 (sample_request GET None) ?full =
     (ErrorReply 429
        (createErrorResponse (- 32000) ''Too many requests. Please try again later.''
           (Some JNull) (Some (JObj [(''retryAfter'', JNum 60)]))) :: unit reply, ?full)"
    by (simp add: prod_eq_iff)
  from health_request [of ?p 1000 "sample_request GET None" ?room, where 'r = unit] admit
  have "fst (health_endpoint ?p 1000 (sample_request GET None) ?room :: unit reply \<times> server_state) =
          HealthReply \<lparr>status = ''ok'', iso_timestamp = now_iso ?p,
                       activeSessions = length (transports ?room),
                       cacheEntries = length (searchCache ?room),
                       uptime = proc_uptime ?p,
                       memory_used = round_mb (heapUsed ?p),
                       memory_total = round_mb (heapTotal ?p)\<rparr>"
    by blast
  then have 2: "fst (health_endpoint ?p 1000 (sample_request GET None) ?room) =
     (HealthReply \<lparr>status = ''ok'', iso_timestamp = ''2025-01-01T00:00:00.000Z'',
                    activeSessions = 0, cacheEntries = 0, uptime = 12.5,
                    memory_used = 51, memory_total = 100\<rparr> :: unit reply)"
    by (simp add: empty_state_def round_mb_def)
  from 1 2 show ?thesis by simp
qed

text \<open>
  C7 (as the specification states it) fails for the rate windows: serving one health
  request on a server with no state at all leaves a rate window for the client behind.
\<close>

theorem health_side_effect_counterexample:
  "health_endpoint
     \<lparr>proc_uptime = 12.5, heapUsed = 52953088, heapTotal = 104857600,
      now_iso = ''2025-01-01T00:00:00.000Z''\<rparr>
     1000 (sample_request GET None) empty_state
   = (HealthReply \<lparr>status = ''ok'', iso_timestamp = ''2025-01-01T00:00:00.000Z'',
                    activeSessions = 0, cacheEntries = 0, uptime = 12.5,
                    memory_used = 51, memory_total = 100\<rparr> :: unit reply,
      empty_state\<lparr>rateLimits := [(''10.0.0.7'', \<lparr>requests = 1, windowStart = 1000\<rparr>)]\<rparr>)
   \<and> rateLimits (empty_state\<lparr>rateLimits := [(''10.0.0.7'', \<lparr>requests = 1, windowStart = 1000\<rparr>)]\<rparr>)
       \<noteq> rateLimits empty_state"
  by (simp add: health_endpoint_def rateLimitMiddleware_def checkRateLimit_def clientIP_def
        or_else_def sample_request_def empty_state_def health_handler_def round_mb_def Let_def)

section \<open>The search tool: fallback and cache\<close>



































section \<open>The registry stays well formed\<close>

lemma registry_ok_update:
  "registry_ok ts \<Longrightarrow> isValidSessionId k \<Longrightarrow> registry_ok (AList.update k v ts)"
  by (auto simp add: registry_ok_def distinct_update update_keys)

lemma registry_ok_delete: "registry_ok ts \<Longrightarrow> registry_ok (AList.delete k ts)"
  by (auto simp add: registry_ok_def delete_keys distinct_removeAll)

lemma registry_ok_run_handleRequest:
  assumes ok: "registry_ok ts"
    and gen: "\<And>bytes. initialized (handleRequest sdk tr req) = Some bytes \<Longrightarrow> length bytes = 16"
  shows "registry_ok (snd (run_handleRequest sdk tr req ts))"
proof (cases "initialized (handleRequest sdk tr req)")
  case None
  with ok show ?thesis
    by (auto simp add: run_handleRequest_def Let_def onclose_def registry_ok_delete
        split: option.splits)
next
  case (Some bytes)
  then have v: "isValidSessionId (randomUUID bytes)"
    using gen randomUUID_valid by blast
  then have ne: "randomUUID bytes \<noteq> []" by (rule valid_nonempty)
  from ok v have "registry_ok (AList.update (randomUUID bytes) v' ts)" for v'
    by (rule registry_ok_update)
  with Some ne show ?thesis
    by (simp add: run_handleRequest_def Let_def onsessioninitialized_def onclose_def
        registry_ok_delete)
qed

lemma registry_ok_handle_with:
  assumes ok: "registry_ok (transports st)"
    and gen: "\<And>bytes. initialized (handleRequest sdk tr req) = Some bytes \<Longrightarrow> length bytes = 16"
  shows "registry_ok (transports (snd (handle_with sdk prefix i tr req st)))"
proof -
  obtain res ts where r: "run_handleRequest sdk tr req (transports st) = (res, ts)"
    by (cases "run_handleRequest sdk tr req (transports st)")
  have "registry_ok (snd (run_handleRequest sdk tr req (transports st)))"
    using ok gen by (rule registry_ok_run_handleRequest)
  with r have "registry_ok ts" by simp
  with r show ?thesis
    by (cases res) (simp_all add: handle_with_def)
qed

text \<open>
  Every request to \<^verbatim>\<open>/mcp\<close>, the cleanup scheduled by a DELETE and every pass of the
  periodic cleanup keep the registry well formed, provided the generator draws sixteen
  bytes each time the SDK initialises a session.
\<close>

lemma registry_ok_mcp_endpoint:
  assumes ok: "registry_ok (transports st)"
    and gen: "\<And>tr req bytes. initialized (handleRequest sdk tr req) = Some bytes \<Longrightarrow> length bytes = 16"
  shows "registry_ok (transports (fst (snd (mcp_endpoint sdk now req st))))"
proof -
  have hw: "registry_ok (transports (snd (handle_with sdk prefix i tr req st')))"
    if "registry_ok (transports st')" for prefix i tr st'
    using that gen by (rule registry_ok_handle_with)
  have post: "registry_ok (transports (snd (post_mcp sdk req st')))"
    if "registry_ok (transports st')" for st'
    using that hw [OF that]
    by (auto simp add: post_mcp_def post_without_session_def Let_def registry_ok_delete
        split: option.splits)
  have get: "registry_ok (transports (snd (get_mcp sdk req st')))"
    if "registry_ok (transports st')" for st'
    using that hw [OF that]
    by (auto simp add: get_mcp_def Let_def split: option.splits)
  have del: "registry_ok (transports (fst (snd (delete_mcp sdk req st'))))"
    if "registry_ok (transports st')" for st'
  proof -
    have "registry_ok (snd (run_handleRequest sdk tr req (transports st')))" for tr
      using that gen by (rule registry_ok_run_handleRequest)
    then show ?thesis
      using that
      by (auto simp add: delete_mcp_def Let_def split: option.splits prod.splits sdk_result.splits)
         (metis snd_conv)+
  qed
  show ?thesis
    using ok post [of "st\<lparr>rateLimits := rl\<rparr>" for rl] get [of "st\<lparr>rateLimits := rl\<rparr>" for rl]
      del [of "st\<lparr>rateLimits := rl\<rparr>" for rl]
    by (auto simp add: mcp_endpoint_def Let_def split: prod.splits option.splits http_method.splits)
qed

lemma registry_ok_terminationCleanup:
  "registry_ok (transports st) \<Longrightarrow> registry_ok (transports (terminationCleanup sid st))"
  by (simp add: terminationCleanup_def registry_ok_delete)

lemma registry_ok_fold_delete:
  "registry_ok c \<Longrightarrow>
   registry_ok (fold (\<lambda>(sid, tr) c. if defunct sid tr then AList.delete sid c else c) xs c)"
  by (induction xs arbitrary: c) (auto simp add: registry_ok_delete)

lemma registry_ok_reaper:
  "registry_ok (transports st) \<Longrightarrow> registry_ok (transports (reaper now st))"
  by (simp add: reaper_def reapTransports_def registry_ok_fold_delete)

section \<open>The summarize tool: the 30 second timeout\<close>

text \<open>
  In the McpServer variant, when the timer of 30000 ms settles before the sampling
  request, \<^verbatim>\<open>processSamplingRequest\<close> throws the timeout error (its message says
  \<^verbatim>\<open>timed out\<close>, which does not contain \<^verbatim>\<open>timeout\<close>, so it is thrown as it is), and the
  \<^verbatim>\<open>summarize\<close> tool catches it and returns a text result flagged as an error. The same
  holds for every other failure of the sampling request. A session identifier that is
  a property name inherited from \<^verbatim>\<open>Object.prototype\<close> and no session finds no sampling
  server, whatever the sessions.
\<close>

lemma timeout_message_kept:
  "rethrow (ErrorValue ''Sampling request timed out after 30 seconds'' None)
     = ErrorValue ''Sampling request timed out after 30 seconds'' None"
  by (simp add: rethrow_def)

lemma processSamplingRequest_timeout:
  "find_sampling sessions sid \<Longrightarrow>
   processSamplingRequest sessions sid TimerFirst
     = Inl (ErrorValue ''Sampling request timed out after 30 seconds'' None)"
  by (simp add: processSamplingRequest_def timeout_message_kept)

lemma find_sampling_inherited:
  "sid \<in> set prototype_keys \<Longrightarrow> map_of sessions sid = None \<Longrightarrow>
   \<not> find_sampling sessions (Some sid)
   \<and> processSamplingRequest sessions (Some sid) settled
       = Inl (ErrorValue ''No client with sampling capabilities is currently connected'' None)"
  by (auto simp add: find_sampling_def processSamplingRequest_def or_else_def prototype_keys_def)

lemma summarize_failure_fallback:
  "present sid \<Longrightarrow> settled = TimerFirst \<or> (\<exists>e. settled = SamplingFirst (Inl e)) \<Longrightarrow>
   summarize sessions sid settled = (''Unable to generate summary due to error'', True)"
  by (auto simp add: summarize_def processSamplingRequest_def)

end
